theory Spec2Isabelle
  imports Complex_Main "HOL-Library.Char_ord" "HOL-Library.List_Lexorder"
begin

section \<open>Python values and errors\<close>

text \<open>
  The notebooks are Python. Every exception the modelled code can raise is a value of
  \<open>py_error\<close>, and a function that can raise returns \<open>py_error + 'a\<close> with the
  exception on the left. \<open>OSError\<close> stands for the operating-system errors of
  \<^verbatim>\<open>os.listdir\<close> and \<^verbatim>\<open>Image.open\<close> (missing directory or file, undecodable image).
\<close>

datatype py_error = IndexError | ValueError | OSError | ZeroDivisionError

text \<open>
  \<^verbatim>\<open>xs[i]\<close> on a Python list: an index below zero counts from the end, and only an
  index outside \<open>-len .. len-1\<close> raises \<^verbatim>\<open>IndexError\<close>.
\<close>

definition py_getitem :: "'a list \<Rightarrow> int \<Rightarrow> py_error + 'a" where
  "py_getitem xs i =
     (if 0 \<le> i \<and> i < int (length xs) then Inr (xs ! nat i)
      else if i < 0 \<and> - int (length xs) \<le> i then Inr (xs ! nat (int (length xs) + i))
      else Inl IndexError)"

text \<open>
  The slices \<^verbatim>\<open>xs[k:]\<close> and \<^verbatim>\<open>xs[:k]\<close>: a negative bound counts from the end, and
  a bound outside the list is clamped, so a slice never raises.
\<close>

definition slice_bound :: "'a list \<Rightarrow> int \<Rightarrow> nat" where
  "slice_bound xs k =
     (if k < 0 then nat (max (int (length xs) + k) 0) else min (nat k) (length xs))"

definition py_slice_from :: "'a list \<Rightarrow> int \<Rightarrow> 'a list" where
  "py_slice_from xs k = drop (slice_bound xs k) xs"

definition py_slice_upto :: "'a list \<Rightarrow> int \<Rightarrow> 'a list" where
  "py_slice_upto xs k = take (slice_bound xs k) xs"

text \<open>
  \<^verbatim>\<open>os.path.join\<close> on a POSIX system: a component that starts with the separator
  discards what came before it; otherwise it is appended, with a separator unless the
  path so far is empty or already ends with one.
\<close>

definition join_step :: "string \<Rightarrow> string \<Rightarrow> string" where
  "join_step path b =
     (if b \<noteq> [] \<and> hd b = CHR ''/'' then b
      else if path = [] \<or> last path = CHR ''/'' then path @ b
      else path @ ''/'' @ b)"

definition os_path_join :: "string \<Rightarrow> string list \<Rightarrow> string" where
  "os_path_join a p = foldl join_step a p"

section \<open>The file system and images\<close>

text \<open>
  A decoded image is its pixel grid, a list of rows; a pixel of a mask file is the
  instance number stored there (0 for the background). The file system answers the two
  calls the dataset makes: \<^verbatim>\<open>os.listdir\<close> (the names in a directory, in no particular
  order) and \<^verbatim>\<open>Image.open\<close>; \<open>None\<close> is the call raising.
\<close>

type_synonym image = "nat list list"

record filesystem =
  listdir :: "string \<Rightarrow> string list option"
  image_open :: "string \<Rightarrow> image option"

text \<open>The result of \<^verbatim>\<open>Image.open(img_path).convert("RGB")\<close>, kept opaque.\<close>

datatype rgb_image = Convert_RGB image

section \<open>\<^verbatim>\<open>float32\<close>\<close>

text \<open>
  The tensors \<^verbatim>\<open>boxes\<close> and \<^verbatim>\<open>area\<close> are \<^verbatim>\<open>float32\<close>. Every value they hold here
  comes from integer pixel indices by conversion, subtraction and multiplication, so a
  finite value is a whole number: \<open>Float v\<close> is the \<^verbatim>\<open>float32\<close> of value \<open>v\<close>,
  \<open>Infinite s\<close> is infinity (negative when \<open>s\<close> holds) and \<open>NaN\<close> is not-a-number. The
  sign of zero is not kept.

  A \<^verbatim>\<open>float32\<close> has 24 significant bits. A whole number below \<open>2^24\<close> in magnitude
  is stored as it is; a larger one is rounded to the nearest number with 24
  significant bits, a tie going to the even significand, and a result of magnitude
  \<open>2^128\<close> or more is infinity. The numbers converted here are the pixel indices
  that \<^verbatim>\<open>np.where\<close> returns; they are below the sides of the image, which
  \<^verbatim>\<open>Image.open\<close> keeps below \<open>2^31\<close>, so the conversion, which goes through a
  \<^verbatim>\<open>float64\<close>, rounds once.
\<close>

datatype float32 = Float int | Infinite bool | NaN

fun bit_length :: "int \<Rightarrow> nat" where
  "bit_length n = (if n \<le> 0 then 0 else Suc (bit_length (n div 2)))"

definition round_to_24_bits :: "int \<Rightarrow> int" where
  "round_to_24_bits n =
     (if n < 2 ^ 24 then n
      else (let e = bit_length n - 24; q = n div 2 ^ e; r = n mod 2 ^ e; half = 2 ^ (e - 1)
            in (if half < r \<or> (r = half \<and> odd q) then q + 1 else q) * 2 ^ e))"

text \<open>The conversion of \<^verbatim>\<open>torch.as_tensor(..., dtype=torch.float32)\<close>, and the rounding
  of every arithmetic result.\<close>

definition to_float32 :: "int \<Rightarrow> float32" where
  "to_float32 v =
     (let r = round_to_24_bits \<bar>v\<bar> in
      if 2 ^ 128 \<le> r then Infinite (v < 0) else Float (sgn v * r))"

text \<open>Subtraction and multiplication of \<^verbatim>\<open>float32\<close> tensors, element by element.\<close>

fun float32_sub :: "float32 \<Rightarrow> float32 \<Rightarrow> float32" where
  "float32_sub (Float a) (Float b) = to_float32 (a - b)"
| "float32_sub (Float a) (Infinite s) = Infinite (\<not> s)"
| "float32_sub (Infinite s) (Float b) = Infinite s"
| "float32_sub (Infinite s) (Infinite s') = (if s = s' then NaN else Infinite s)"
| "float32_sub NaN y = NaN"
| "float32_sub x NaN = NaN"

fun float32_mul :: "float32 \<Rightarrow> float32 \<Rightarrow> float32" where
  "float32_mul (Float a) (Float b) = to_float32 (a * b)"
| "float32_mul (Float a) (Infinite s) = (if a = 0 then NaN else Infinite (s \<noteq> (a < 0)))"
| "float32_mul (Infinite s) (Float b) = (if b = 0 then NaN else Infinite (s \<noteq> (b < 0)))"
| "float32_mul (Infinite s) (Infinite s') = Infinite (s \<noteq> s')"
| "float32_mul NaN y = NaN"
| "float32_mul x NaN = NaN"

section \<open>The detection target\<close>

text \<open>
  The dictionary \<^verbatim>\<open>target\<close> has a fixed set of keys, so it is a record. \<^verbatim>\<open>boxes\<close>
  and \<^verbatim>\<open>area\<close> are \<^verbatim>\<open>float32\<close> tensors, \<^verbatim>\<open>labels\<close>, \<^verbatim>\<open>image_id\<close> and
  \<^verbatim>\<open>iscrowd\<close> are \<^verbatim>\<open>int64\<close> tensors, and \<^verbatim>\<open>masks\<close> is the \<^verbatim>\<open>uint8\<close> tensor of
  the binary masks.
\<close>

record target =
  boxes :: "float32 list list"
  labels :: "int list"
  masks :: "nat list list list"
  image_id :: "int list"
  area :: "float32 list"
  iscrowd :: "int list"

type_synonym sample = "rgb_image \<times> target"

section \<open>PennFudanDataset\<close>

record PennFudanDataset =
  self_root :: string
  self_transforms :: "(sample \<Rightarrow> sample) option"
  self_imgs :: "string list"
  self_masks :: "string list"

text \<open>
  \<^verbatim>\<open>__init__\<close>: list the two directories and sort the names. Python's \<^verbatim>\<open>sorted\<close> on
  strings is the lexicographic order of the characters, here the order of
  \<open>string\<close>. Nothing compares the two listings.
\<close>

definition init :: "filesystem \<Rightarrow> string \<Rightarrow> (sample \<Rightarrow> sample) option \<Rightarrow> py_error + PennFudanDataset" where
  "init fs root_dir transforms =
     (case listdir fs (os_path_join root_dir [''PNGImages'']) of
        None \<Rightarrow> Inl OSError
      | Some png \<Rightarrow>
          (case listdir fs (os_path_join root_dir [''PedMasks'']) of
             None \<Rightarrow> Inl OSError
           | Some ped \<Rightarrow>
               Inr \<lparr>self_root = root_dir, self_transforms = transforms,
                    self_imgs = sort png, self_masks = sort ped\<rparr>))"

text \<open>\<^verbatim>\<open>__len__\<close>.\<close>

definition len :: "PennFudanDataset \<Rightarrow> nat" where
  "len self = length (self_imgs self)"

subsection \<open>The numpy calls of \<^verbatim>\<open>__getitem__\<close>\<close>

text \<open>\<^verbatim>\<open>np.unique\<close>: the distinct values of the flattened array, ascending.\<close>

definition np_unique :: "image \<Rightarrow> nat list" where
  "np_unique mask_arr = sort (remdups (concat mask_arr))"

text \<open>\<^verbatim>\<open>mask == obj_ids[:, None, None]\<close>: one boolean grid per object id.\<close>

definition split_masks :: "image \<Rightarrow> nat list \<Rightarrow> bool list list list" where
  "split_masks mask_arr obj_ids = map (\<lambda>c. map (map (\<lambda>p. p = c)) mask_arr) obj_ids"

text \<open>
  \<^verbatim>\<open>np.where\<close> on a boolean grid: the row indices and the column indices of the true
  cells, in row-major order.
\<close>

definition true_cells :: "bool list list \<Rightarrow> (int \<times> int) list" where
  "true_cells m =
     concat (map (\<lambda>(r, row). map (\<lambda>(c, b). (int r, int c)) (filter snd (enumerate 0 row)))
                 (enumerate 0 m))"

definition np_where :: "bool list list \<Rightarrow> int list \<times> int list" where
  "np_where m = (map fst (true_cells m), map snd (true_cells m))"

text \<open>\<^verbatim>\<open>np.min\<close> and \<^verbatim>\<open>np.max\<close> raise \<^verbatim>\<open>ValueError\<close> on an empty array.\<close>

fun np_min :: "int list \<Rightarrow> py_error + int" where
  "np_min [] = Inl ValueError"
| "np_min (x # xs) = Inr (fold min xs x)"

fun np_max :: "int list \<Rightarrow> py_error + int" where
  "np_max [] = Inl ValueError"
| "np_max (x # xs) = Inr (fold max xs x)"

text \<open>The body of the loop over the instances: one box \<^verbatim>\<open>[xmin, ymin, xmax, ymax]\<close>.\<close>

definition bounding_box :: "bool list list \<Rightarrow> py_error + int list" where
  "bounding_box m =
     (let pos = np_where m in
      case np_min (snd pos) of Inl e \<Rightarrow> Inl e | Inr xmin \<Rightarrow>
     (case np_max (snd pos) of Inl e \<Rightarrow> Inl e | Inr xmax \<Rightarrow>
     (case np_min (fst pos) of Inl e \<Rightarrow> Inl e | Inr ymin \<Rightarrow>
     (case np_max (fst pos) of Inl e \<Rightarrow> Inl e | Inr ymax \<Rightarrow>
      Inr [xmin, ymin, xmax, ymax]))))"

text \<open>
  \<^verbatim>\<open>for i in range(num_objs)\<close>: the boxes are appended in the order of the masks, and
  the first mask whose box raises ends the loop.
\<close>

fun boxes_loop :: "bool list list list \<Rightarrow> int list list \<Rightarrow> py_error + int list list" where
  "boxes_loop [] bs = Inr bs"
| "boxes_loop (m # ms) bs =
     (case bounding_box m of Inl e \<Rightarrow> Inl e | Inr b \<Rightarrow> boxes_loop ms (bs @ [b]))"

text \<open>
  \<^verbatim>\<open>(boxes[:, 3] - boxes[:, 1]) * (boxes[:, 2] - boxes[:, 0])\<close> on the \<^verbatim>\<open>float32\<close>
  tensor of the boxes: both differences and the product are rounded to \<^verbatim>\<open>float32\<close>.
  With no box at all \<^verbatim>\<open>torch.as_tensor([])\<close> is one-dimensional, and indexing it with
  two indices raises \<^verbatim>\<open>IndexError\<close>.
\<close>

definition box_areas :: "float32 list list \<Rightarrow> py_error + float32 list" where
  "box_areas bs =
     (if bs = [] then Inl IndexError
      else Inr (map (\<lambda>b. float32_mul (float32_sub (b ! 3) (b ! 1))
                                      (float32_sub (b ! 2) (b ! 0))) bs))"

definition to_uint8 :: "bool \<Rightarrow> nat" where
  "to_uint8 b = (if b then 1 else 0)"

text \<open>
  The part of \<^verbatim>\<open>__getitem__\<close> after the binary masks are split off: boxes, labels,
  area and crowd flags of the \<open>num_objs\<close> instances. The integer boxes of the loop are
  converted by \<^verbatim>\<open>torch.as_tensor(boxes, dtype=torch.float32)\<close>, and the areas are
  computed from the converted boxes.
\<close>

definition target_of_masks :: "int \<Rightarrow> bool list list list \<Rightarrow> py_error + target" where
  "target_of_masks idx ms =
     (let num_objs = length ms in
      case boxes_loop ms [] of Inl e \<Rightarrow> Inl e | Inr bs \<Rightarrow>
     (let boxes32 = map (map to_float32) bs in
      case box_areas boxes32 of Inl e \<Rightarrow> Inl e | Inr ar \<Rightarrow>
      Inr \<lparr>boxes = boxes32,
           labels = replicate num_objs 1,
           masks = map (map (map to_uint8)) ms,
           image_id = [idx],
           area = ar,
           iscrowd = replicate num_objs 0\<rparr>))"

text \<open>
  \<^verbatim>\<open>__getitem__\<close>. The two names are looked up before any file is opened; the first
  object id is taken for the background and removed.
\<close>

definition getitem :: "filesystem \<Rightarrow> PennFudanDataset \<Rightarrow> int \<Rightarrow> py_error + sample" where
  "getitem fs self idx =
     (case py_getitem (self_imgs self) idx of Inl e \<Rightarrow> Inl e | Inr img_name \<Rightarrow>
     (case py_getitem (self_masks self) idx of Inl e \<Rightarrow> Inl e | Inr mask_name \<Rightarrow>
     (case image_open fs (os_path_join (self_root self) [''PNGImages'', img_name]) of
        None \<Rightarrow> Inl OSError | Some img \<Rightarrow>
     (case image_open fs (os_path_join (self_root self) [''PedMasks'', mask_name]) of
        None \<Rightarrow> Inl OSError | Some mask_arr \<Rightarrow>
     (let obj_ids = py_slice_from (np_unique mask_arr) 1 in
      case target_of_masks idx (split_masks mask_arr obj_ids) of Inl e \<Rightarrow> Inl e | Inr tgt \<Rightarrow>
     (case self_transforms self of
        None \<Rightarrow> Inr (Convert_RGB img, tgt)
      | Some f \<Rightarrow> Inr (f (Convert_RGB img, tgt))))))))"

subsection \<open>The split into a training and an evaluation subset\<close>

text \<open>
  \<^verbatim>\<open>indices[:-50]\<close> and \<^verbatim>\<open>indices[-50:]\<close> of
  \<^verbatim>\<open>indices = torch.randperm(len(dataset)).tolist()\<close>. What \<^verbatim>\<open>randperm n\<close> returns is
  some arrangement of \<open>0, ..., n - 1\<close>.
\<close>

definition is_randperm :: "nat \<Rightarrow> nat list \<Rightarrow> bool" where
  "is_randperm n indices = (sort indices = [0..<n])"

definition train_indices :: "nat list \<Rightarrow> nat list" where
  "train_indices indices = py_slice_upto indices (- 50)"

definition test_indices :: "nat list \<Rightarrow> nat list" where
  "test_indices indices = py_slice_from indices (- 50)"

text \<open>
  The calls a data loader makes on the dataset object during a run. Neither method
  assigns to an attribute of \<^verbatim>\<open>self\<close>, so the object after the call is the object
  before it.
\<close>

datatype call = Call_getitem int | Call_len

datatype dataset_result = Got "py_error + sample" | Length nat

fun dataset_call :: "filesystem \<Rightarrow> PennFudanDataset \<Rightarrow> call \<Rightarrow> PennFudanDataset \<times> dataset_result" where
  "dataset_call fs self (Call_getitem idx) = (self, Got (getitem fs self idx))"
| "dataset_call fs self Call_len = (self, Length (len self))"

fun run_calls :: "filesystem \<Rightarrow> PennFudanDataset \<Rightarrow> call list \<Rightarrow> PennFudanDataset" where
  "run_calls fs self [] = self"
| "run_calls fs self (c # cs) = run_calls fs (fst (dataset_call fs self c)) cs"

section \<open>The training and evaluation loops of the two classification notebooks\<close>

text \<open>
  A batch is the list of its samples, each an input with its class index, so \<^verbatim>\<open>X\<close> and
  \<^verbatim>\<open>y\<close> are the two projections and \<^verbatim>\<open>len(X)\<close> is the length. The loops read
  three things of a loader: \<^verbatim>\<open>len(dataloader.dataset)\<close>, \<^verbatim>\<open>len(dataloader)\<close> and the
  batches of one pass over it. A pass is an effect: a loader built with
  \<^verbatim>\<open>shuffle=True\<close> (as both loaders of the CIFAR-10 notebook are) draws a fresh order
  from the random number generator each time it is iterated. So \<open>iterate\<close> takes the
  state \<open>'r\<close> of the generator and returns the batches of this pass and the state
  after it; a loader that does not shuffle returns the same batches in every state.
\<close>

type_synonym 'x batch = "('x \<times> nat) list"

record ('x, 'r) dataloader =
  dataset_len :: nat
  num_batches :: nat
  iterate :: "'r \<Rightarrow> 'x batch list \<times> 'r"

text \<open>
  The model object: its parameters, their \<^verbatim>\<open>.grad\<close> slots and the mode flag that
  \<^verbatim>\<open>model.train()\<close> and \<^verbatim>\<open>model.eval()\<close> set.
\<close>

record ('p, 'g) module =
  params :: 'p
  grads :: 'g
  training :: bool

text \<open>
  What the loops call in the framework. \<open>forward\<close> is the network on one sample, in the
  given mode, giving one score per class; a batch is mapped sample by sample (the two
  networks of the notebooks are built from linear, convolution, pooling, flatten and
  ReLU layers, which treat the samples of a batch independently). \<open>backward\<close> is
  \<^verbatim>\<open>loss.backward()\<close>: it adds the gradient of the batch loss, for the given loss
  function at the current parameters, to the gradient slots. \<open>zero_grad\<close> and \<open>step\<close>
  are the optimizer's, which keeps a state \<open>'o\<close> of its own (its momentum buffers).
  Python floats are a type \<open>'f\<close> with an addition and a division, about which nothing is
  assumed; \<open>float_of\<close> converts a count. Scores are values of an ordered type \<open>'s\<close>.
\<close>

record ('x, 's, 'p, 'g, 'o, 'f) torch =
  forward :: "'p \<Rightarrow> bool \<Rightarrow> 'x \<Rightarrow> 's list"
  backward :: "('s list list \<Rightarrow> nat list \<Rightarrow> 'f) \<Rightarrow> 'p \<Rightarrow> bool \<Rightarrow> 'x batch \<Rightarrow> 'g \<Rightarrow> 'g"
  zero_grad :: "'g \<Rightarrow> 'g"
  step :: "'o \<Rightarrow> 'p \<Rightarrow> 'g \<Rightarrow> 'p \<times> 'o"
  float_of :: "nat \<Rightarrow> 'f"

text \<open>
  \<^verbatim>\<open>argmax\<close> along the class axis: the first index that holds the largest score; it
  raises when the axis is empty.
\<close>

definition argmax :: "'s::linorder list \<Rightarrow> py_error + nat" where
  "argmax row =
     (if row = [] then Inl IndexError
      else Inr (length (takeWhile (\<lambda>v. v \<noteq> Max (set row)) row)))"

text \<open>\<^verbatim>\<open>(pred.argmax(1) == y).type(torch.float).sum().item()\<close>, before the conversion.\<close>

fun n_correct :: "'s::linorder list list \<Rightarrow> nat list \<Rightarrow> py_error + nat" where
  "n_correct (row # pred) (t # y) =
     (case argmax row of Inl e \<Rightarrow> Inl e | Inr c \<Rightarrow>
     (case n_correct pred y of Inl e \<Rightarrow> Inl e | Inr n \<Rightarrow>
      Inr ((if c = t then 1 else 0) + n)))"
| "n_correct _ _ = Inr 0"

subsection \<open>\<^verbatim>\<open>test\<close>\<close>

text \<open>
  The loop of \<^verbatim>\<open>test\<close>, with its two accumulators. The model is in evaluation mode
  and gradients are not tracked, so the loop only reads the parameters.
\<close>

fun test_loop ::
  "('x, 's::linorder, 'p, 'g, 'o, 'f::{zero,plus,inverse}) torch \<Rightarrow>
   ('s list list \<Rightarrow> nat list \<Rightarrow> 'f) \<Rightarrow> 'p \<Rightarrow> 'x batch list \<Rightarrow> 'f \<Rightarrow> 'f \<Rightarrow> py_error + 'f \<times> 'f" where
  "test_loop T loss_fn p [] test_loss correct = Inr (test_loss, correct)"
| "test_loop T loss_fn p (b # bs) test_loss correct =
     (let X = map fst b; y = map snd b;
          pred = map (forward T p False) X
      in case n_correct pred y of Inl e \<Rightarrow> Inl e | Inr n \<Rightarrow>
         test_loop T loss_fn p bs (test_loss + loss_fn pred y) (correct + float_of T n))"

text \<open>
  \<^verbatim>\<open>test\<close> prints the average loss and the accuracy (as a percentage) and returns
  nothing. The model gives what the call leaves behind, the model object and the state
  of the random number generator, and the pair of values that is printed, or the
  exception. Dividing by a zero \<^verbatim>\<open>num_batches\<close> or \<^verbatim>\<open>size\<close> raises.
\<close>

definition test ::
  "('x, 's::linorder, 'p, 'g, 'o, 'f::{zero,plus,inverse}) torch \<Rightarrow> ('x, 'r) dataloader \<Rightarrow>
   ('p, 'g) module \<Rightarrow> ('s list list \<Rightarrow> nat list \<Rightarrow> 'f) \<Rightarrow> 'r \<Rightarrow>
   (('p, 'g) module \<times> 'r) \<times> (py_error + 'f \<times> 'f)" where
  "test T dataloader model loss_fn rng =
     (let size = dataset_len dataloader;
          n = num_batches dataloader;
          model = model\<lparr>training := False\<rparr>;
          (bs, rng) = iterate dataloader rng
      in ((model, rng),
          case test_loop T loss_fn (params model) bs 0 0 of
            Inl e \<Rightarrow> Inl e
          | Inr (test_loss, correct) \<Rightarrow>
              if n = 0 then Inl ZeroDivisionError
              else if size = 0 then Inl ZeroDivisionError
              else Inr (test_loss / float_of T n, correct / float_of T size)))"

subsection \<open>\<^verbatim>\<open>train\<close>\<close>

text \<open>
  What one call of \<^verbatim>\<open>train\<close> does, in order: the five framework calls of every
  batch, and the line it prints every \<open>K\<close> batches, which shows \<^verbatim>\<open>loss\<close>,
  \<^verbatim>\<open>current\<close> and \<^verbatim>\<open>size\<close>.
\<close>

datatype 'f event = Predict | Loss | Zero_grad | Backward | Step | Progress 'f nat nat

fun train_loop ::
  "nat \<Rightarrow> ('x, 's, 'p, 'g, 'o, 'f) torch \<Rightarrow> ('s list list \<Rightarrow> nat list \<Rightarrow> 'f) \<Rightarrow> nat \<Rightarrow>
   'x batch list \<Rightarrow> nat \<Rightarrow> ('p, 'g) module \<times> 'o \<Rightarrow> (('p, 'g) module \<times> 'o) \<times> 'f event list" where
  "train_loop K T loss_fn dsize [] batch st = (st, [])"
| "train_loop K T loss_fn dsize (b # bs) batch (model, opt) =
     (let X = map fst b; y = map snd b;
          pred = map (forward T (params model) (training model)) X;
          loss = loss_fn pred y;
          model = model\<lparr>grads := zero_grad T (grads model)\<rparr>;
          model = model\<lparr>grads := backward T loss_fn (params model) (training model) b (grads model)\<rparr>;
          (p, opt) = step T opt (params model) (grads model);
          model = model\<lparr>params := p\<rparr>;
          out = [Predict, Loss, Zero_grad, Backward, Step] @
                (if batch mod K = 0 then [Progress loss (batch * length X) dsize] else []);
          (st, rest) = train_loop K T loss_fn dsize bs (batch + 1) (model, opt)
      in (st, out @ rest))"

text \<open>
  \<^verbatim>\<open>train\<close> with the reporting interval \<open>K\<close>, the literal of
  \<^verbatim>\<open>if batch % K == 0\<close>. It gives the model, the optimizer state and the generator
  state after the call, and the trace.
\<close>

definition train ::
  "nat \<Rightarrow> ('x, 's, 'p, 'g, 'o, 'f) torch \<Rightarrow> ('x, 'r) dataloader \<Rightarrow> ('p, 'g) module \<Rightarrow>
   ('s list list \<Rightarrow> nat list \<Rightarrow> 'f) \<Rightarrow> 'o \<Rightarrow> 'r \<Rightarrow>
   ((('p, 'g) module \<times> 'o) \<times> 'r) \<times> 'f event list" where
  "train K T dataloader model loss_fn opt rng =
     (let size = dataset_len dataloader;
          model = model\<lparr>training := True\<rparr>;
          (bs, rng) = iterate dataloader rng;
          (st, out) = train_loop K T loss_fn size bs 0 (model, opt)
      in ((st, rng), out))"

text \<open>The two notebooks differ in the reporting interval only.\<close>

definition train_cifar10 where
  "train_cifar10 = train 500"

definition train_fashion_mnist where
  "train_fashion_mnist = train 100"

section \<open>Specification-level notions and example inputs\<close>

text \<open>
  The tight box of a boolean grid, as a specification: the least and greatest column and
  the least and greatest row among its true cells, in the order
  \<^verbatim>\<open>[xmin, ymin, xmax, ymax]\<close>. It is what \<open>bounding_box\<close> is compared with.
\<close>

definition tight_box :: "bool list list \<Rightarrow> int list" where
  "tight_box g = [Min (snd ` set (true_cells g)), Min (fst ` set (true_cells g)),
                  Max (snd ` set (true_cells g)), Max (fst ` set (true_cells g))]"

text \<open>
  The place of a list that a Python index addresses, when it is in range: a negative
  index counts from the end.
\<close>

definition position :: "nat \<Rightarrow> int \<Rightarrow> nat" where
  "position n i = nat (if i < 0 then int n + i else i)"

text \<open>
  The end of \<^verbatim>\<open>__getitem__\<close>: the sample as built, or what the configured transform
  makes of it.
\<close>

definition hook :: "(sample \<Rightarrow> sample) option \<Rightarrow> sample \<Rightarrow> sample" where
  "hook tr s = (case tr of None \<Rightarrow> s | Some f \<Rightarrow> f s)"

text \<open>
  An image of at most \<open>n\<close> rows and at most \<open>n\<close> columns.
\<close>

definition image_within :: "nat \<Rightarrow> 'a list list \<Rightarrow> bool" where
  "image_within n m = (length m \<le> n \<and> (\<forall>row\<in>set m. length row \<le> n))"

text \<open>
  The target in closed form, for binary masks that each have a true cell: the box of a
  mask is its tight box converted to \<^verbatim>\<open>float32\<close>, and its area is the \<^verbatim>\<open>float32\<close>
  product of the \<^verbatim>\<open>float32\<close> differences of the converted coordinates.
\<close>

definition float32_box :: "bool list list \<Rightarrow> float32 list" where
  "float32_box g = map to_float32 (tight_box g)"

definition float32_area :: "bool list list \<Rightarrow> float32" where
  "float32_area g =
     float32_mul (float32_sub (to_float32 (tight_box g ! 3)) (to_float32 (tight_box g ! 1)))
                 (float32_sub (to_float32 (tight_box g ! 2)) (to_float32 (tight_box g ! 0)))"

definition built_target :: "int \<Rightarrow> bool list list list \<Rightarrow> target" where
  "built_target idx ms =
     \<lparr>boxes = map float32_box ms,
      labels = replicate (length ms) 1,
      masks = map (map (map to_uint8)) ms,
      image_id = [idx],
      area = map float32_area ms,
      iscrowd = replicate (length ms) 0\<rparr>"

text \<open>A directory with two images and a single mask.\<close>

definition fs_mismatch :: filesystem where
  "fs_mismatch =
     \<lparr>listdir = (\<lambda>p. if p = ''ped/PNGImages'' then Some [''b.png'', ''a.png'']
                     else if p = ''ped/PedMasks'' then Some [''a_mask.png'']
                     else None),
      image_open = (\<lambda>p. None)\<rparr>"

text \<open>
  A directory with three images and their masks, and the dataset built from it. The mask
  of \<open>a\<close> holds two instances, each two cells wide and high; in the mask of \<open>b\<close> each
  of the two instances is a single cell; the mask of \<open>c\<close> has two colours and no
  background cell.
\<close>

definition fs_ped :: filesystem where
  "fs_ped =
     \<lparr>listdir = (\<lambda>p. if p = ''ped/PNGImages'' then Some [''b.png'', ''c.png'', ''a.png'']
                     else if p = ''ped/PedMasks'' then Some [''c_mask.png'', ''a_mask.png'', ''b_mask.png'']
                     else None),
      image_open = (\<lambda>p. if p = ''ped/PNGImages/a.png'' then Some [[5, 5, 5], [5, 5, 5], [5, 5, 5]]
                        else if p = ''ped/PNGImages/b.png'' then Some [[6, 6, 6]]
                        else if p = ''ped/PNGImages/c.png'' then Some [[7, 7], [7, 7]]
                        else if p = ''ped/PedMasks/a_mask.png'' then Some [[1, 1, 0], [0, 1, 2], [0, 2, 2]]
                        else if p = ''ped/PedMasks/b_mask.png'' then Some [[0, 1, 2]]
                        else if p = ''ped/PedMasks/c_mask.png'' then Some [[1, 2], [1, 2]]
                        else None)\<rparr>"

definition ds_ped :: PennFudanDataset where
  "ds_ped = \<lparr>self_root = ''ped'', self_transforms = None,
             self_imgs = [''a.png'', ''b.png'', ''c.png''],
             self_masks = [''a_mask.png'', ''b_mask.png'', ''c_mask.png'']\<rparr>"

text \<open>The same dataset with a transform that sets every label to 0.\<close>

definition zero_labels :: "sample \<Rightarrow> sample" where
  "zero_labels s = (fst s, (snd s)\<lparr>labels := map (\<lambda>l. 0) (labels (snd s))\<rparr>)"

definition ds_ped_zero_labels :: PennFudanDataset where
  "ds_ped_zero_labels = ds_ped\<lparr>self_transforms := Some zero_labels\<rparr>"

text \<open>The same directory, listed in another order.\<close>

definition fs_ped_relisted :: filesystem where
  "fs_ped_relisted =
     fs_ped\<lparr>listdir := (\<lambda>p. if p = ''ped/PNGImages'' then Some [''a.png'', ''c.png'', ''b.png'']
                     else if p = ''ped/PedMasks'' then Some [''b_mask.png'', ''a_mask.png'', ''c_mask.png'']
                     else None)\<rparr>"

text \<open>A dataset of 52 files and one arrangement of its indices.\<close>

definition ds_52 :: PennFudanDataset where
  "ds_52 = \<lparr>self_root = ''ped'', self_transforms = None,
            self_imgs = map (\<lambda>i. [char_of i] @ ''.png'') [65..<117],
            self_masks = map (\<lambda>i. [char_of i] @ ''_mask.png'') [65..<117]\<rparr>"

definition indices_52 :: "nat list" where
  "indices_52 = [51, 50] @ rev [1..<50] @ [0]"

text \<open>
  The number of samples of a batch whose predicted class is the target, as a
  specification: \<open>f\<close> is the network on one sample.
\<close>

definition hits :: "('x \<Rightarrow> 's::linorder list) \<Rightarrow> 'x batch \<Rightarrow> nat" where
  "hits f b = length (filter (\<lambda>(x, t). argmax (f x) = Inr t) b)"

text \<open>
  The trace of \<^verbatim>\<open>train\<close> with the loss values left out, and what one batch
  contributes to it: the five calls, then the printed line if the batch index is a
  multiple of \<open>K\<close>.
\<close>

fun is_progress :: "'f event \<Rightarrow> bool" where
  "is_progress (Progress l c s) = True"
| "is_progress _ = False"

fun shape :: "'f event \<Rightarrow> unit event" where
  "shape (Progress l c s) = Progress () c s"
| "shape Predict = Predict"
| "shape Loss = Loss"
| "shape Zero_grad = Zero_grad"
| "shape Backward = Backward"
| "shape Step = Step"

definition batch_events :: "nat \<Rightarrow> nat \<Rightarrow> nat \<times> 'x batch \<Rightarrow> unit event list" where
  "batch_events K dsize ib =
     [Predict, Loss, Zero_grad, Backward, Step] @
     (if fst ib mod K = 0 then [Progress () (fst ib * length (snd ib)) dsize] else [])"

text \<open>
  A small instance of the framework for the examples: inputs, scores, the single
  parameter and its gradient are integers, the score row of a sample has two classes,
  the optimizer is plain gradient descent without a state, and floats are read as reals.
  The loss of a batch is the mean over its samples of the sum of the sample's scores.
\<close>

definition torch_ex :: "(int, int, int, int, unit, real) torch" where
  "torch_ex =
     \<lparr>forward = (\<lambda>p mode x. [0, p * x]),
      backward = (\<lambda>loss_fn p mode b g. g + sum_list (map fst b)),
      zero_grad = (\<lambda>g. 0),
      step = (\<lambda>opt p g. (p - g, opt)),
      float_of = real\<rparr>"

definition loss_ex :: "int list list \<Rightarrow> nat list \<Rightarrow> real" where
  "loss_ex pred y = real_of_int (sum_list (map sum_list pred)) / real (length pred)"

definition model_ex :: "(int, int) module" where
  "model_ex = \<lparr>params = 2, grads = 7, training = True\<rparr>"

text \<open>
  Two loaders over the same three samples in batches of two. The first does not
  shuffle. The second shuffles: the generator state is a counter, and the pass takes the
  samples in the order 0, 1, 2 when the counter is even and in the order 2, 1, 0 when it
  is odd. A third loader has no sample at all.
\<close>

definition loader_ex :: "(int, nat) dataloader" where
  "loader_ex =
     \<lparr>dataset_len = 3, num_batches = 2,
      iterate = (\<lambda>rng. ([[(1, 1), (1, 0)], [(5, 0)]], rng))\<rparr>"

definition loader_shuffled :: "(int, nat) dataloader" where
  "loader_shuffled =
     \<lparr>dataset_len = 3, num_batches = 2,
      iterate = (\<lambda>rng. (if even rng then [[(1, 1), (1, 0)], [(5, 0)]]
                          else [[(5, 0), (1, 0)], [(1, 1)]], rng + 1))\<rparr>"

definition loader_empty :: "(int, nat) dataloader" where
  "loader_empty = \<lparr>dataset_len = 0, num_batches = 0, iterate = (\<lambda>rng. ([], rng))\<rparr>"

text \<open>
  A loader over 201 samples in batches of two: 100 full batches and a last batch of one
  sample.
\<close>

definition loader_201 :: "(int, nat) dataloader" where
  "loader_201 =
     \<lparr>dataset_len = 201, num_batches = 101,
      iterate = (\<lambda>rng. (replicate 100 [(1, 1), (2, 0)] @ [[(3, 1)]], rng))\<rparr>"

section \<open>Facts about the numpy calls\<close>

lemma np_min_eq: "np_min xs = (if xs = [] then Inl ValueError else Inr (Min (set xs)))"
proof (cases xs)
  case Nil
  then show ?thesis by simp
next
  case (Cons a list)
  have "fold min list a = Min (set (a # list))" by (rule Min.set_eq_fold[symmetric])
  with Cons show ?thesis by simp
qed

lemma np_max_eq: "np_max xs = (if xs = [] then Inl ValueError else Inr (Max (set xs)))"
proof (cases xs)
  case Nil
  then show ?thesis by simp
next
  case (Cons a list)
  have "fold max list a = Max (set (a # list))" by (rule Max.set_eq_fold[symmetric])
  with Cons show ?thesis by simp
qed

text \<open>The cells \<open>np_where\<close> lists are exactly the positions of the grid that hold \<open>True\<close>.\<close>

lemma in_true_cells:
  "(y, x) \<in> set (true_cells g) \<longleftrightarrow>
     (\<exists>r c. y = int r \<and> x = int c \<and> r < length g \<and> c < length (g ! r) \<and> g ! r ! c)"
proof
  assume "(y, x) \<in> set (true_cells g)"
  then obtain r row c b where
    "(r, row) \<in> set (enumerate 0 g)" "(c, b) \<in> set (enumerate 0 row)" "b" "y = int r" "x = int c"
    unfolding true_cells_def by auto
  then show "\<exists>r c. y = int r \<and> x = int c \<and> r < length g \<and> c < length (g ! r) \<and> g ! r ! c"
    by (auto simp: in_set_enumerate_eq)
next
  assume "\<exists>r c. y = int r \<and> x = int c \<and> r < length g \<and> c < length (g ! r) \<and> g ! r ! c"
  then obtain r c where rc: "y = int r" "x = int c" "r < length g" "c < length (g ! r)" "g ! r ! c"
    by blast
  then have "(r, g ! r) \<in> set (enumerate 0 g)" "(c, True) \<in> set (enumerate 0 (g ! r))"
    by (auto simp: in_set_enumerate_eq)
  with rc show "(y, x) \<in> set (true_cells g)"
    unfolding true_cells_def by force
qed

lemma true_cells_empty: "true_cells g = [] \<longleftrightarrow> True \<notin> set (concat g)"
proof
  assume e: "true_cells g = []"
  show "True \<notin> set (concat g)"
  proof
    assume "True \<in> set (concat g)"
    then obtain row where "row \<in> set g" "True \<in> set row" by auto
    then obtain r c where "r < length g" "g ! r = row" "c < length row" "row ! c"
      by (metis in_set_conv_nth)
    then have "(int r, int c) \<in> set (true_cells g)"
      unfolding in_true_cells by blast
    with e show False by simp
  qed
next
  assume n: "True \<notin> set (concat g)"
  show "true_cells g = []"
  proof (cases "true_cells g")
    case Nil
    then show ?thesis .
  next
    case (Cons p ps)
    then have "(fst p, snd p) \<in> set (true_cells g)" by simp
    then obtain r c where "r < length g" "c < length (g ! r)" "g ! r ! c"
      unfolding in_true_cells by blast
    then have "True \<in> set (g ! r)" "g ! r \<in> set g"
      by (auto simp: in_set_conv_nth)
    with n show ?thesis by auto
  qed
qed

lemma bounding_box_eq:
  "bounding_box g = (if true_cells g = [] then Inl ValueError else Inr (tight_box g))"
  by (simp add: bounding_box_def np_where_def np_min_eq np_max_eq tight_box_def Let_def)

lemma boxes_loop_eq:
  "boxes_loop ms bs =
     (if \<forall>g\<in>set ms. true_cells g \<noteq> [] then Inr (bs @ map tight_box ms) else Inl ValueError)"
  by (induction ms arbitrary: bs) (auto simp: bounding_box_eq)

lemma to_float32_exact: "\<bar>v\<bar> < 2 ^ 24 \<Longrightarrow> to_float32 v = Float v"
  by (simp add: to_float32_def round_to_24_bits_def Let_def mult_sgn_abs)

lemma target_of_masks_eq:
  "target_of_masks idx ms =
     (if \<exists>g\<in>set ms. true_cells g = [] then Inl ValueError
      else if ms = [] then Inl IndexError
      else Inr (built_target idx ms))"
  by (simp add: target_of_masks_def boxes_loop_eq box_areas_def Let_def built_target_def
      float32_box_def float32_area_def tight_box_def comp_def numeral_3_eq_3 numeral_2_eq_2)

lemma tight_box_nth:
  "tight_box g ! 0 = Min (snd ` set (true_cells g))"
  "tight_box g ! 1 = Min (fst ` set (true_cells g))"
  "tight_box g ! 2 = Max (snd ` set (true_cells g))"
  "tight_box g ! 3 = Max (fst ` set (true_cells g))"
  by (simp_all add: tight_box_def numeral_3_eq_3 numeral_2_eq_2)

lemma tight_box_ordered:
  assumes "true_cells g \<noteq> []"
  shows "tight_box g ! 0 \<le> tight_box g ! 2 \<and> tight_box g ! 1 \<le> tight_box g ! 3"
proof -
  from assms obtain p where p: "p \<in> set (true_cells g)" by (cases "true_cells g") auto
  have "Min (snd ` set (true_cells g)) \<le> snd p" "snd p \<le> Max (snd ` set (true_cells g))"
       "Min (fst ` set (true_cells g)) \<le> fst p" "fst p \<le> Max (fst ` set (true_cells g))"
    using p by simp_all
  then show ?thesis unfolding tight_box_nth by linarith
qed

lemma py_getitem_eq:
  "py_getitem xs i =
     (if - int (length xs) \<le> i \<and> i < int (length xs) then Inr (xs ! position (length xs) i)
      else Inl IndexError)"
  by (auto simp: py_getitem_def position_def)

lemma py_slice_from_1: "py_slice_from xs 1 = drop 1 xs"
  by (cases xs) (simp_all add: py_slice_from_def slice_bound_def)

lemma set_np_unique: "set (np_unique m) = set (concat m)"
  by (simp add: np_unique_def)

lemma distinct_np_unique: "distinct (np_unique m)"
  by (simp add: np_unique_def)

lemma sorted_np_unique: "sorted (np_unique m)"
  by (simp add: np_unique_def)

lemma length_np_unique: "length (np_unique m) = card (set (concat m))"
  by (metis distinct_np_unique set_np_unique distinct_card)

lemma colour_mask_has_cell:
  assumes "c \<in> set (concat m)"
  shows "true_cells (map (map (\<lambda>p. p = c)) m) \<noteq> []"
proof -
  have "set (concat (map (map (\<lambda>p. p = c)) m)) = (\<lambda>p. p = c) ` set (concat m)"
    by auto
  with assms have "True \<in> set (concat (map (map (\<lambda>p. p = c)) m))" by auto
  then show ?thesis by (simp add: true_cells_empty)
qed

lemma split_masks_cells:
  assumes "set ids \<subseteq> set (concat m)" "g \<in> set (split_masks m ids)"
  shows "true_cells g \<noteq> []"
proof -
  from assms(2) obtain c where c: "c \<in> set ids" "g = map (map (\<lambda>p. p = c)) m"
    by (auto simp: split_masks_def)
  with assms(1) have "c \<in> set (concat m)" by blast
  from colour_mask_has_cell [OF this] c(2) show ?thesis by blast
qed

lemma obj_ids_subset: "set (drop 1 (np_unique m)) \<subseteq> set (concat m)"
  by (metis set_drop_subset set_np_unique)

lemma target_of_split:
  "target_of_masks idx (split_masks m (drop 1 (np_unique m))) =
     (if card (set (concat m)) < 2 then Inl IndexError
      else Inr (built_target idx (split_masks m (drop 1 (np_unique m)))))"
proof -
  let ?ms = "split_masks m (drop 1 (np_unique m))"
  have a: "\<not> (\<exists>g\<in>set ?ms. true_cells g = [])"
    using split_masks_cells [OF obj_ids_subset] by blast
  have l: "length ?ms = card (set (concat m)) - 1"
    by (simp add: split_masks_def length_np_unique)
  have "?ms = [] \<longleftrightarrow> length ?ms = 0" by simp
  also have "\<dots> \<longleftrightarrow> card (set (concat m)) < 2" unfolding l by arith
  finally have e: "?ms = [] \<longleftrightarrow> card (set (concat m)) < 2" .
  show ?thesis
    unfolding target_of_masks_eq using a by (simp only: e if_False)
qed

lemma np_unique_three:
  assumes "0 \<in> set (concat m)" "card (set (concat m) - {0}) = 2"
  shows "\<exists>c1 c2. 0 < c1 \<and> c1 < c2 \<and> np_unique m = [0, c1, c2]"
proof -
  let ?S = "set (concat m)"
  have "card ?S = Suc (card (?S - {0}))"
    using assms(1) by (intro card.remove) simp_all
  then have "length (np_unique m) = Suc (Suc (Suc 0))"
    using assms(2) by (simp add: length_np_unique)
  then obtain a c1 c2 where u: "np_unique m = [a, c1, c2]"
    by (auto simp: length_Suc_conv)
  have "a < c1" "c1 < c2"
    using sorted_np_unique [of m] distinct_np_unique [of m] unfolding u by auto
  moreover have "0 \<in> {a, c1, c2}"
    using assms(1) set_np_unique [of m] unfolding u by auto
  ultimately have "a = 0" by auto
  with u \<open>a < c1\<close> \<open>c1 < c2\<close> show ?thesis by blast
qed

lemma getitem_IndexError:
  assumes "int (len ds) \<le> i \<or> i < - int (len ds)"
  shows "getitem fs ds i = Inl IndexError"
  using assms by (auto simp: getitem_def py_getitem_eq len_def)

lemma getitem_in_range:
  assumes "- int (len ds) \<le> i" "i < int (len ds)" "length (self_masks ds) = len ds"
      and "image_open fs (os_path_join (self_root ds)
             [''PNGImages'', self_imgs ds ! position (len ds) i]) = Some img"
      and "image_open fs (os_path_join (self_root ds)
             [''PedMasks'', self_masks ds ! position (len ds) i]) = Some m"
  shows "getitem fs ds i =
     (case target_of_masks i (split_masks m (drop 1 (np_unique m))) of
        Inl e \<Rightarrow> Inl e
      | Inr tgt \<Rightarrow> Inr (hook (self_transforms ds) (Convert_RGB img, tgt)))"
  using assms
  by (simp add: getitem_def py_getitem_eq len_def py_slice_from_1 hook_def
      split: sum.splits option.splits)

lemma getitem_built:
  assumes "getitem fs ds i = Inr s"
      and "py_getitem (self_masks ds) i = Inr mask_name"
      and "image_open fs (os_path_join (self_root ds) [''PedMasks'', mask_name]) = Some m"
  shows "2 \<le> card (set (concat m)) \<and>
         (\<exists>img. s = hook (self_transforms ds)
                     (Convert_RGB img, built_target i (split_masks m (drop 1 (np_unique m)))))"
  using assms unfolding getitem_def hook_def
  by (auto simp: py_slice_from_1 target_of_split [unfolded One_nat_def]
      split: sum.splits option.splits if_splits)

text \<open>
  The coordinates of a tight box are row and column indices of the grid, so they lie
  below the number of rows and columns.
\<close>

lemma image_within_split:
  assumes "image_within n m" "g \<in> set (split_masks m ids)"
  shows "image_within n g"
  using assms by (auto simp: image_within_def split_masks_def)

lemma true_cell_range:
  assumes "image_within n g" "p \<in> set (true_cells g)"
  shows "0 \<le> fst p \<and> fst p < int n \<and> 0 \<le> snd p \<and> snd p < int n"
proof -
  from assms(2) have "(fst p, snd p) \<in> set (true_cells g)" by simp
  then obtain r c where rc: "fst p = int r" "snd p = int c" "r < length g" "c < length (g ! r)"
    unfolding in_true_cells by blast
  from rc(3) have "g ! r \<in> set g" by simp
  with assms(1) have "length (g ! r) \<le> n" "length g \<le> n"
    by (simp_all add: image_within_def)
  with rc show ?thesis by simp
qed

lemma tight_box_range:
  assumes "true_cells g \<noteq> []" "image_within n g"
  shows "\<exists>xmin ymin xmax ymax. tight_box g = [xmin, ymin, xmax, ymax] \<and>
           0 \<le> xmin \<and> xmin \<le> xmax \<and> xmax < int n \<and> 0 \<le> ymin \<and> ymin \<le> ymax \<and> ymax < int n"
proof -
  let ?C = "set (true_cells g)"
  have ne: "snd ` ?C \<noteq> {}" "fst ` ?C \<noteq> {}" using assms(1) by simp_all
  have fin: "finite (snd ` ?C)" "finite (fst ` ?C)" by simp_all
  have "Min (snd ` ?C) \<in> snd ` ?C" by (rule Min_in [OF fin(1) ne(1)])
  then obtain p1 where p1: "p1 \<in> ?C" "Min (snd ` ?C) = snd p1" by blast
  have "Max (snd ` ?C) \<in> snd ` ?C" by (rule Max_in [OF fin(1) ne(1)])
  then obtain p2 where p2: "p2 \<in> ?C" "Max (snd ` ?C) = snd p2" by blast
  have "Min (fst ` ?C) \<in> fst ` ?C" by (rule Min_in [OF fin(2) ne(2)])
  then obtain p3 where p3: "p3 \<in> ?C" "Min (fst ` ?C) = fst p3" by blast
  have "Max (fst ` ?C) \<in> fst ` ?C" by (rule Max_in [OF fin(2) ne(2)])
  then obtain p4 where p4: "p4 \<in> ?C" "Max (fst ` ?C) = fst p4" by blast
  note r = true_cell_range [OF assms(2) p1(1)] true_cell_range [OF assms(2) p2(1)]
           true_cell_range [OF assms(2) p3(1)] true_cell_range [OF assms(2) p4(1)]
  have o: "tight_box g ! 0 \<le> tight_box g ! 2 \<and> tight_box g ! 1 \<le> tight_box g ! 3"
    by (rule tight_box_ordered [OF assms(1)])
  have "tight_box g = [snd p1, fst p3, snd p2, fst p4]"
    by (simp add: tight_box_def p1(2) p2(2) p3(2) p4(2))
  moreover have "snd p1 \<le> snd p2" "fst p3 \<le> fst p4"
    using o unfolding tight_box_nth p1(2) p2(2) p3(2) p4(2) by simp_all
  ultimately show ?thesis using r by blast
qed

lemma float32_box_exact:
  assumes "true_cells g \<noteq> []" "image_within (2 ^ 24) g"
  shows "float32_box g = map Float (tight_box g)"
proof -
  from tight_box_range [OF assms] obtain xmin ymin xmax ymax where
    t: "tight_box g = [xmin, ymin, xmax, ymax]"
    and "0 \<le> xmin" "xmin \<le> xmax" "xmax < 2 ^ 24" "0 \<le> ymin" "ymin \<le> ymax" "ymax < 2 ^ 24"
    by auto
  then have "\<bar>xmin\<bar> < 2 ^ 24" "\<bar>ymin\<bar> < 2 ^ 24" "\<bar>xmax\<bar> < 2 ^ 24" "\<bar>ymax\<bar> < 2 ^ 24"
    by simp_all
  then show ?thesis
    unfolding float32_box_def t by (simp add: to_float32_exact)
qed

text \<open>
  In an image of at most 4096 rows and columns both differences are below 4096 and
  their product is below \<open>2^24\<close>, so nothing is rounded.
\<close>

lemma float32_area_exact:
  assumes "true_cells g \<noteq> []" "image_within 4096 g"
  shows "\<exists>xmin ymin xmax ymax.
           float32_box g = [Float xmin, Float ymin, Float xmax, Float ymax] \<and>
           xmin \<le> xmax \<and> ymin \<le> ymax \<and>
           float32_area g = Float ((ymax - ymin) * (xmax - xmin))"
proof -
  from tight_box_range [OF assms] obtain xmin ymin xmax ymax where
    t: "tight_box g = [xmin, ymin, xmax, ymax]"
    and r: "0 \<le> xmin" "xmin \<le> xmax" "xmax < 4096" "0 \<le> ymin" "ymin \<le> ymax" "ymax < 4096"
    by auto
  from r have c: "to_float32 xmin = Float xmin" "to_float32 ymin = Float ymin"
      "to_float32 xmax = Float xmax" "to_float32 ymax = Float ymax"
    by (simp_all add: to_float32_exact)
  from r have d: "to_float32 (ymax - ymin) = Float (ymax - ymin)"
      "to_float32 (xmax - xmin) = Float (xmax - xmin)"
    by (simp_all add: to_float32_exact)
  from r have e: "0 \<le> ymax - ymin" "ymax - ymin \<le> 4095" "0 \<le> xmax - xmin" "xmax - xmin \<le> 4095"
    by simp_all
  have "0 \<le> (ymax - ymin) * (xmax - xmin)"
    by (rule mult_nonneg_nonneg [OF e(1) e(3)])
  moreover have "(ymax - ymin) * (xmax - xmin) \<le> 4095 * 4095"
    by (rule mult_mono [OF e(2) e(4) _ e(3)]) simp
  ultimately have "\<bar>(ymax - ymin) * (xmax - xmin)\<bar> < 2 ^ 24" by simp
  then have p: "to_float32 ((ymax - ymin) * (xmax - xmin)) = Float ((ymax - ymin) * (xmax - xmin))"
    by (rule to_float32_exact)
  have b: "float32_box g = [Float xmin, Float ymin, Float xmax, Float ymax]"
    unfolding float32_box_def t by (simp add: c)
  have a: "float32_area g = Float ((ymax - ymin) * (xmax - xmin))"
    unfolding float32_area_def t by (simp add: c d p numeral_3_eq_3 numeral_2_eq_2)
  from b a r show ?thesis by blast
qed

lemma getitem_same_files:
  assumes "image_open fs' = image_open fs"
  shows "getitem fs' d i = getitem fs d i"
  unfolding getitem_def assms ..

lemma sort_perm_eq:
  fixes xs ys :: "'a::linorder list"
  assumes "distinct xs" "distinct ys" "set xs = set ys"
  shows "sort xs = sort ys"
  using assms by (intro sorted_distinct_set_unique) simp_all

lemma is_randperm_distinct: "is_randperm n indices \<Longrightarrow> distinct indices"
  by (metis is_randperm_def distinct_sort distinct_upt)

lemma is_randperm_set: "is_randperm n indices \<Longrightarrow> set indices = {0..<n}"
  by (metis is_randperm_def set_sort set_upt)

lemma split_disjoint: "distinct xs \<Longrightarrow> set (py_slice_upto xs k) \<inter> set (py_slice_from xs k) = {}"
  unfolding py_slice_upto_def py_slice_from_def
  by (metis append_take_drop_id distinct_append)

lemma split_union: "set (py_slice_upto xs k) \<union> set (py_slice_from xs k) = set xs"
  unfolding py_slice_upto_def py_slice_from_def
  by (metis append_take_drop_id set_append)

lemma dataset_call_self: "fst (dataset_call fs d c) = d"
  by (cases c) simp_all

lemma run_calls_same: "run_calls fs d cs = d"
  by (induction cs arbitrary: d) (simp_all add: dataset_call_self)

section \<open>Construction of the dataset\<close>

text \<open>
  C2. The claim has construction fail when the two listings differ in length. The
  constructor never compares them: in the directory \<open>fs_mismatch\<close>, with two images and
  one mask, it returns a dataset of length two.
\<close>

theorem init_mismatch_counterexample:
  "listdir fs_mismatch ''ped/PNGImages'' = Some [''b.png'', ''a.png''] \<and>
   listdir fs_mismatch ''ped/PedMasks'' = Some [''a_mask.png''] \<and>
   init fs_mismatch ''ped'' None =
     Inr \<lparr>self_root = ''ped'', self_transforms = None,
          self_imgs = [''a.png'', ''b.png''], self_masks = [''a_mask.png'']\<rparr>"
  by (simp add: init_def fs_mismatch_def os_path_join_def join_step_def)

text \<open>
  C2, as amended. Whenever the two directories can be listed, construction succeeds,
  whatever the two counts are; the length of the dataset is the number of image files
  listed, and the mask names are kept as listed, however many there are.
\<close>

theorem init_ignores_counts:
  assumes "listdir fs (os_path_join r [''PNGImages'']) = Some png"
      and "listdir fs (os_path_join r [''PedMasks'']) = Some ped"
  shows "\<exists>d. init fs r tr = Inr d \<and> len d = length png \<and> length (self_masks d) = length ped"
  using assms by (simp add: init_def len_def)

theorem init_ignores_counts_witness:
  "\<exists>d. init fs_mismatch ''ped'' None = Inr d \<and> len d = 2 \<and> length (self_masks d) = 1"
  using init_ignores_counts [of fs_mismatch "''ped''" "[''b.png'', ''a.png'']" "[''a_mask.png'']" None]
  by (simp add: fs_mismatch_def os_path_join_def join_step_def numeral_2_eq_2)

text \<open>
  C8. Construction sorts both listings, so two constructions over directories that hold
  the same names, listed in whatever order, give the same dataset object: the same
  sorted list of image names and the same sorted list of mask names, each holding
  exactly the names listed; and with the same files behind the names, every index gives
  the same sample. The order is the lexicographic order of \<open>string\<close>.
\<close>

theorem init_order_independent:
  assumes "listdir fs (os_path_join r [''PNGImages'']) = Some png"
      and "listdir fs (os_path_join r [''PedMasks'']) = Some ped"
      and "listdir fs' (os_path_join r [''PNGImages'']) = Some png'"
      and "listdir fs' (os_path_join r [''PedMasks'']) = Some ped'"
      and "distinct png" "distinct png'" "set png' = set png"
      and "distinct ped" "distinct ped'" "set ped' = set ped"
      and "image_open fs' = image_open fs"
  shows "\<exists>d. init fs r tr = Inr d \<and> init fs' r tr = Inr d \<and>
             sorted (self_imgs d) \<and> distinct (self_imgs d) \<and> set (self_imgs d) = set png \<and>
             sorted (self_masks d) \<and> distinct (self_masks d) \<and> set (self_masks d) = set ped \<and>
             getitem fs' d i = getitem fs d i"
proof -
  have "sort png' = sort png" "sort ped' = sort ped"
    using assms by (auto intro: sort_perm_eq)
  with assms(1-10) getitem_same_files [OF assms(11)] show ?thesis by (simp add: init_def)
qed

theorem init_order_independent_witness:
  "\<exists>d. init fs_ped ''ped'' None = Inr d \<and> init fs_ped_relisted ''ped'' None = Inr d \<and>
       sorted (self_imgs d) \<and> distinct (self_imgs d) \<and>
       set (self_imgs d) = set [''b.png'', ''c.png'', ''a.png''] \<and>
       sorted (self_masks d) \<and> distinct (self_masks d) \<and>
       set (self_masks d) = set [''c_mask.png'', ''a_mask.png'', ''b_mask.png''] \<and>
       getitem fs_ped_relisted d 0 = getitem fs_ped d 0"
  by (rule init_order_independent [of fs_ped "''ped''" _ _ fs_ped_relisted
        "[''a.png'', ''c.png'', ''b.png'']" "[''b_mask.png'', ''a_mask.png'', ''c_mask.png'']"])
     (auto simp add: fs_ped_def fs_ped_relisted_def os_path_join_def join_step_def)

section \<open>The split and the length of the dataset\<close>

text \<open>
  C9. For every arrangement \<open>indices\<close> of \<open>0, ..., len d - 1\<close>, the training indices
  \<^verbatim>\<open>indices[:-50]\<close> and the evaluation indices \<^verbatim>\<open>indices[-50:]\<close> share no element and
  together are all indices; and after any sequence of \<^verbatim>\<open>__getitem__\<close> and
  \<^verbatim>\<open>__len__\<close> calls the dataset has the length it had before.
\<close>

theorem split_disjoint_len_fixed:
  assumes "is_randperm (len d) indices"
  shows "set (train_indices indices) \<inter> set (test_indices indices) = {} \<and>
         set (train_indices indices) \<union> set (test_indices indices) = {0..<len d} \<and>
         len (run_calls fs d calls) = len d"
  using assms
  by (simp add: train_indices_def test_indices_def split_disjoint split_union
      is_randperm_distinct is_randperm_set run_calls_same)

lemma indices_52_randperm: "is_randperm (len ds_52) indices_52"
  by code_simp

lemma train_indices_52: "train_indices indices_52 = [51, 50]"
  by code_simp

theorem split_disjoint_len_fixed_witness:
  "is_randperm (len ds_52) indices_52 \<and>
   train_indices indices_52 = [51, 50] \<and>
   set (train_indices indices_52) \<inter> set (test_indices indices_52) = {} \<and>
   set (train_indices indices_52) \<union> set (test_indices indices_52) = {0..<len ds_52} \<and>
   len (run_calls fs_ped ds_52 [Call_len, Call_getitem 0, Call_getitem 51]) = len ds_52"
  using split_disjoint_len_fixed [OF indices_52_randperm,
      of fs_ped "[Call_len, Call_getitem 0, Call_getitem 51]"]
    indices_52_randperm train_indices_52
  by blast

section \<open>Indexing the dataset\<close>

text \<open>
  C3. The claim has every negative index fail. Python counts a negative index from the
  end: on the dataset \<open>ds_ped\<close> of length three, index \<open>-3\<close> returns the first sample
  (with \<^verbatim>\<open>image_id\<close> \<open>-3\<close>).
\<close>

theorem getitem_negative_counterexample:
  "len ds_ped = 3 \<and>
   getitem fs_ped ds_ped (- 3) =
     Inr (Convert_RGB [[5, 5, 5], [5, 5, 5], [5, 5, 5]],
          \<lparr>boxes = [[Float 0, Float 0, Float 1, Float 1], [Float 1, Float 1, Float 2, Float 2]],
           labels = [1, 1],
           masks = [[[1, 1, 0], [0, 1, 0], [0, 0, 0]], [[0, 0, 0], [0, 0, 1], [0, 1, 1]]],
           image_id = [- 3], area = [Float 1, Float 1], iscrowd = [0, 0]\<rparr>)"
  by code_simp

text \<open>
  C3, as amended. With \<open>L\<close> the length of the dataset, every index \<open>i \<ge> L\<close> and every
  index \<open>i < -L\<close> fails with \<^verbatim>\<open>IndexError\<close>. An index with \<open>-L \<le> i < L\<close> returns a
  sample, built from the image at its position (\<open>L + i\<close> for a negative \<open>i\<close>), when the
  dataset has as many masks as images, the image and the mask at that position can be
  opened, and the mask holds at least two distinct pixel values (the background and one
  instance).
\<close>

theorem getitem_index_range:
  "(int (len ds) \<le> i \<or> i < - int (len ds) \<longrightarrow> getitem fs ds i = Inl IndexError) \<and>
   (- int (len ds) \<le> i \<and> i < int (len ds) \<and> length (self_masks ds) = len ds \<and>
    image_open fs (os_path_join (self_root ds)
      [''PNGImages'', self_imgs ds ! position (len ds) i]) = Some img \<and>
    image_open fs (os_path_join (self_root ds)
      [''PedMasks'', self_masks ds ! position (len ds) i]) = Some m \<and>
    2 \<le> card (set (concat m))
    \<longrightarrow> (\<exists>t. getitem fs ds i = Inr (hook (self_transforms ds) (Convert_RGB img, t))))"
proof (intro conjI impI)
  assume "int (len ds) \<le> i \<or> i < - int (len ds)"
  then show "getitem fs ds i = Inl IndexError" by (rule getitem_IndexError)
next
  assume a: "- int (len ds) \<le> i \<and> i < int (len ds) \<and> length (self_masks ds) = len ds \<and>
    image_open fs (os_path_join (self_root ds)
      [''PNGImages'', self_imgs ds ! position (len ds) i]) = Some img \<and>
    image_open fs (os_path_join (self_root ds)
      [''PedMasks'', self_masks ds ! position (len ds) i]) = Some m \<and>
    2 \<le> card (set (concat m))"
  then have g: "getitem fs ds i =
     (case target_of_masks i (split_masks m (drop 1 (np_unique m))) of
        Inl e \<Rightarrow> Inl e
      | Inr tgt \<Rightarrow> Inr (hook (self_transforms ds) (Convert_RGB img, tgt)))"
    by (intro getitem_in_range) simp_all
  from a have "\<not> card (set (concat m)) < 2" by simp
  then show "\<exists>t. getitem fs ds i = Inr (hook (self_transforms ds) (Convert_RGB img, t))"
    unfolding g target_of_split by auto
qed

theorem getitem_index_range_witness:
  "getitem fs_ped ds_ped 3 = Inl IndexError \<and> getitem fs_ped ds_ped (- 4) = Inl IndexError \<and>
   (\<exists>t. getitem fs_ped ds_ped (- 3) = Inr (Convert_RGB [[5, 5, 5], [5, 5, 5], [5, 5, 5]], t))"
proof -
  have "int (len ds_ped) \<le> 3 \<or> 3 < - int (len ds_ped)"
    by (simp add: len_def ds_ped_def)
  then have a: "getitem fs_ped ds_ped 3 = Inl IndexError"
    using getitem_index_range [of ds_ped 3 fs_ped] by blast
  have "int (len ds_ped) \<le> - 4 \<or> - 4 < - int (len ds_ped)"
    by (simp add: len_def ds_ped_def)
  then have b: "getitem fs_ped ds_ped (- 4) = Inl IndexError"
    using getitem_index_range [of ds_ped "- 4" fs_ped] by blast
  have "- int (len ds_ped) \<le> - 3 \<and> - 3 < int (len ds_ped) \<and>
    length (self_masks ds_ped) = len ds_ped \<and>
    image_open fs_ped (os_path_join (self_root ds_ped)
      [''PNGImages'', self_imgs ds_ped ! position (len ds_ped) (- 3)]) =
      Some [[5, 5, 5], [5, 5, 5], [5, 5, 5]] \<and>
    image_open fs_ped (os_path_join (self_root ds_ped)
      [''PedMasks'', self_masks ds_ped ! position (len ds_ped) (- 3)]) =
      Some [[1, 1, 0], [0, 1, 2], [0, 2, 2]] \<and>
    2 \<le> card (set (concat [[1, 1, 0], [0, 1, 2], [0, 2, 2::nat]]))"
    by code_simp
  then have "\<exists>t. getitem fs_ped ds_ped (- 3) =
           Inr (hook (self_transforms ds_ped) (Convert_RGB [[5, 5, 5], [5, 5, 5], [5, 5, 5]], t))"
    using getitem_index_range [of ds_ped "- 3" fs_ped "[[5, 5, 5], [5, 5, 5], [5, 5, 5]]"
          "[[1, 1, 0], [0, 1, 2], [0, 2, 2]]"] by blast
  then have c: "\<exists>t. getitem fs_ped ds_ped (- 3) =
           Inr (Convert_RGB [[5, 5, 5], [5, 5, 5], [5, 5, 5]], t)"
    by (simp add: ds_ped_def hook_def)
  from a b c show ?thesis by blast
qed

section \<open>The target of a sample\<close>

text \<open>
  C4. The claim has two masks and two boxes with \<open>xmax > xmin\<close> and \<open>ymax > ymin\<close>
  for every mask image with exactly two colours besides the background. The mask of
  \<open>b\<close> is \<open>[[0, 1, 2]]\<close>: its two instances are one cell each, and both boxes have
  \<open>xmax = xmin\<close> and \<open>ymax = ymin\<close>. The mask of \<open>c\<close> has the two colours 1 and 2 and
  no background cell: the smaller colour is removed as if it were the background, and
  one mask and one box are returned. And a box is stored as \<^verbatim>\<open>float32\<close>: the column
  index 16777217 is stored as 16777216.
\<close>

theorem thin_instance_counterexample:
  "image_open fs_ped ''ped/PedMasks/b_mask.png'' = Some [[0, 1, 2]] \<and>
   getitem fs_ped ds_ped 1 =
     Inr (Convert_RGB [[6, 6, 6]],
          \<lparr>boxes = [[Float 1, Float 0, Float 1, Float 0], [Float 2, Float 0, Float 2, Float 0]],
           labels = [1, 1],
           masks = [[[0, 1, 0]], [[0, 0, 1]]],
           image_id = [1], area = [Float 0, Float 0], iscrowd = [0, 0]\<rparr>) \<and>
   image_open fs_ped ''ped/PedMasks/c_mask.png'' = Some [[1, 2], [1, 2]] \<and>
   getitem fs_ped ds_ped 2 =
     Inr (Convert_RGB [[7, 7], [7, 7]],
          \<lparr>boxes = [[Float 1, Float 0, Float 1, Float 1]], labels = [1],
           masks = [[[0, 1], [0, 1]]],
           image_id = [2], area = [Float 0], iscrowd = [0]\<rparr>) \<and>
   to_float32 16777217 = Float 16777216"
  by code_simp

text \<open>
  C4, as amended. When the mask image has at most \<open>2^24 = 16777216\<close> rows and columns
  and holds a background cell (value 0) and exactly two other colours \<open>c1 < c2\<close>, the
  target that \<^verbatim>\<open>__getitem__\<close> builds, and returns as it is when no transform is
  configured, has exactly two masks, the cells equal to \<open>c1\<close> and the cells equal to
  \<open>c2\<close>, and exactly two boxes, each the tight box of its mask, stored exactly: least
  column, least row, greatest column, greatest row of the mask's true cells (see
  \<open>in_true_cells\<close> for what the cells are). Each box has \<open>xmin \<le> xmax\<close> and
  \<open>ymin \<le> ymax\<close>.
\<close>

theorem two_instances:
  assumes "py_getitem (self_imgs ds) i = Inr img_name"
      and "py_getitem (self_masks ds) i = Inr mask_name"
      and "image_open fs (os_path_join (self_root ds) [''PNGImages'', img_name]) = Some img"
      and "image_open fs (os_path_join (self_root ds) [''PedMasks'', mask_name]) = Some m"
      and "0 \<in> set (concat m)" and "card (set (concat m) - {0}) = 2"
      and "image_within (2 ^ 24) m"
  shows "\<exists>t c1 c2 b1 b2.
           getitem fs ds i = Inr (hook (self_transforms ds) (Convert_RGB img, t)) \<and>
           c1 < c2 \<and> set (concat m) - {0} = {c1, c2} \<and>
           masks t = [map (map (\<lambda>p. to_uint8 (p = c1))) m, map (map (\<lambda>p. to_uint8 (p = c2))) m] \<and>
           b1 = tight_box (map (map (\<lambda>p. p = c1)) m) \<and>
           b2 = tight_box (map (map (\<lambda>p. p = c2)) m) \<and>
           boxes t = [map Float b1, map Float b2] \<and>
           b1 ! 0 \<le> b1 ! 2 \<and> b1 ! 1 \<le> b1 ! 3 \<and> b2 ! 0 \<le> b2 ! 2 \<and> b2 ! 1 \<le> b2 ! 3"
proof -
  from np_unique_three [OF assms(5,6)] obtain c1 c2 where
    c: "0 < c1" "c1 < c2" and u: "np_unique m = [0, c1, c2]" by blast
  have s: "set (concat m) = {0, c1, c2}"
    using set_np_unique [of m] unfolding u by simp
  then have d: "set (concat m) - {0} = {c1, c2}" using c by auto
  have "card (set (concat m)) = Suc (card (set (concat m) - {0}))"
    using assms(5) by (intro card.remove) simp_all
  then have n: "\<not> card (set (concat m)) < 2" using assms(6) by simp
  have sp: "split_masks m (drop 1 (np_unique m)) =
      [map (map (\<lambda>p. p = c1)) m, map (map (\<lambda>p. p = c2)) m]"
    by (simp add: u split_masks_def)
  have in1: "c1 \<in> set (concat m)" and in2: "c2 \<in> set (concat m)"
    unfolding s by simp_all
  let ?g1 = "map (map (\<lambda>p. p = c1)) m" and ?g2 = "map (map (\<lambda>p. p = c2)) m"
  let ?t = "built_target i [?g1, ?g2]"
  have w1: "image_within (2 ^ 24) ?g1" and w2: "image_within (2 ^ 24) ?g2"
    using assms(7) by (simp_all add: image_within_def)
  have o1: "tight_box ?g1 ! 0 \<le> tight_box ?g1 ! 2 \<and> tight_box ?g1 ! 1 \<le> tight_box ?g1 ! 3"
    by (rule tight_box_ordered [OF colour_mask_has_cell [OF in1]])
  have o2: "tight_box ?g2 ! 0 \<le> tight_box ?g2 ! 2 \<and> tight_box ?g2 ! 1 \<le> tight_box ?g2 ! 3"
    by (rule tight_box_ordered [OF colour_mask_has_cell [OF in2]])
  have "getitem fs ds i =
      (case target_of_masks i (split_masks m (drop 1 (np_unique m))) of
        Inl e \<Rightarrow> Inl e
      | Inr tgt \<Rightarrow> Inr (hook (self_transforms ds) (Convert_RGB img, tgt)))"
    using assms(1-4)
    by (simp add: getitem_def py_slice_from_1 hook_def split: sum.splits option.splits)
  also have "\<dots> = Inr (hook (self_transforms ds) (Convert_RGB img, ?t))"
    unfolding target_of_split using n by (simp add: sp [unfolded One_nat_def])
  finally have g: "getitem fs ds i = Inr (hook (self_transforms ds) (Convert_RGB img, ?t))" .
  have m: "masks ?t = [map (map (\<lambda>p. to_uint8 (p = c1))) m, map (map (\<lambda>p. to_uint8 (p = c2))) m]"
    by (simp add: built_target_def comp_def)
  have b: "boxes ?t = [map Float (tight_box ?g1), map Float (tight_box ?g2)]"
    by (simp add: built_target_def
        float32_box_exact [OF colour_mask_has_cell [OF in1] w1]
        float32_box_exact [OF colour_mask_has_cell [OF in2] w2])
  from g c(2) d m b o1 o2 show ?thesis by blast
qed

theorem two_instances_witness:
  "\<exists>t c1 c2 b1 b2.
      getitem fs_ped ds_ped 0 = Inr (Convert_RGB [[5, 5, 5], [5, 5, 5], [5, 5, 5]], t) \<and>
      c1 < c2 \<and> set (concat [[1, 1, 0], [0, 1, 2], [0, 2, 2::nat]]) - {0} = {c1, c2} \<and>
      masks t = [map (map (\<lambda>p. to_uint8 (p = c1))) [[1, 1, 0], [0, 1, 2], [0, 2, 2]],
                 map (map (\<lambda>p. to_uint8 (p = c2))) [[1, 1, 0], [0, 1, 2], [0, 2, 2]]] \<and>
      b1 = tight_box (map (map (\<lambda>p. p = c1)) [[1, 1, 0], [0, 1, 2], [0, 2, 2]]) \<and>
      b2 = tight_box (map (map (\<lambda>p. p = c2)) [[1, 1, 0], [0, 1, 2], [0, 2, 2]]) \<and>
      boxes t = [map Float b1, map Float b2] \<and>
      b1 ! 0 \<le> b1 ! 2 \<and> b1 ! 1 \<le> b1 ! 3 \<and> b2 ! 0 \<le> b2 ! 2 \<and> b2 ! 1 \<le> b2 ! 3"
proof -
  have c: "card (set (concat [[1, 1, 0], [0, 1, 2], [0, 2, 2::nat]]) - {0}) = 2"
    by code_simp
  have w: "image_within (2 ^ 24) [[1, 1, 0], [0, 1, 2], [0, 2, 2::nat]]"
    by (simp add: image_within_def)
  have h: "hook (self_transforms ds_ped) = (\<lambda>s. s)"
    by (simp add: ds_ped_def hook_def fun_eq_iff)
  have "\<exists>t c1 c2 b1 b2. getitem fs_ped ds_ped 0 =
        Inr (hook (self_transforms ds_ped) (Convert_RGB [[5, 5, 5], [5, 5, 5], [5, 5, 5]], t)) \<and>
      c1 < c2 \<and> set (concat [[1, 1, 0], [0, 1, 2], [0, 2, 2::nat]]) - {0} = {c1, c2} \<and>
      masks t = [map (map (\<lambda>p. to_uint8 (p = c1))) [[1, 1, 0], [0, 1, 2], [0, 2, 2]],
                 map (map (\<lambda>p. to_uint8 (p = c2))) [[1, 1, 0], [0, 1, 2], [0, 2, 2]]] \<and>
      b1 = tight_box (map (map (\<lambda>p. p = c1)) [[1, 1, 0], [0, 1, 2], [0, 2, 2]]) \<and>
      b2 = tight_box (map (map (\<lambda>p. p = c2)) [[1, 1, 0], [0, 1, 2], [0, 2, 2]]) \<and>
      boxes t = [map Float b1, map Float b2] \<and>
      b1 ! 0 \<le> b1 ! 2 \<and> b1 ! 1 \<le> b1 ! 3 \<and> b2 ! 0 \<le> b2 ! 2 \<and> b2 ! 1 \<le> b2 ! 3"
    by (rule two_instances [of ds_ped 0 "''a.png''" "''a_mask.png''" fs_ped _ _, OF _ _ _ _ _ c w])
       (simp_all add: ds_ped_def fs_ped_def py_getitem_def os_path_join_def join_step_def)
  then show ?thesis unfolding h .
qed

text \<open>
  C7 is about a binary mask without a true cell. Such a mask makes \<^verbatim>\<open>np.min\<close> raise
  \<^verbatim>\<open>ValueError\<close> (see \<open>target_of_masks_eq\<close>), but \<^verbatim>\<open>__getitem__\<close> never has one:
  each of its binary masks is the set of cells equal to a value that \<^verbatim>\<open>np.unique\<close>
  found in the image. So the premise of C7 is never met in \<^verbatim>\<open>__getitem__\<close>, and no
  call can show the failure. What holds of \<^verbatim>\<open>__getitem__\<close> is stated by the two
  theorems below.
\<close>

text \<open>
  \<^verbatim>\<open>__getitem__\<close> never raises \<^verbatim>\<open>ValueError\<close>, the exception of \<^verbatim>\<open>np.min\<close> and
  \<^verbatim>\<open>np.max\<close> on a mask without a true cell.
\<close>

theorem getitem_never_ValueError: "getitem fs ds i \<noteq> Inl ValueError"
  unfolding getitem_def
  by (auto simp: py_getitem_eq py_slice_from_1 target_of_split [unfolded One_nat_def]
      split: sum.splits option.splits if_splits)

text \<open>
  No instance is left out: when \<^verbatim>\<open>__getitem__\<close> returns, the target it has built holds
  one mask and one box for every distinct pixel value of the mask image but the
  smallest, in ascending order of the values, and each of these masks has a pixel set.
\<close>

theorem getitem_keeps_every_instance:
  assumes "getitem fs ds i = Inr s"
      and "py_getitem (self_masks ds) i = Inr mask_name"
      and "image_open fs (os_path_join (self_root ds) [''PedMasks'', mask_name]) = Some m"
  shows "\<exists>x t. s = hook (self_transforms ds) (x, t) \<and>
           masks t = map (\<lambda>c. map (map (\<lambda>p. to_uint8 (p = c))) m) (drop 1 (np_unique m)) \<and>
           length (masks t) = card (set (concat m)) - 1 \<and> 0 < length (masks t) \<and>
           length (boxes t) = length (masks t) \<and>
           (\<forall>g\<in>set (masks t). 1 \<in> set (concat g))"
proof -
  let ?ids = "drop 1 (np_unique m)"
  let ?t = "built_target i (split_masks m ?ids)"
  from getitem_built [OF assms] obtain img where
    c: "2 \<le> card (set (concat m))"
    and s: "s = hook (self_transforms ds) (Convert_RGB img, ?t)"
    by blast
  have m: "masks ?t = map (\<lambda>c. map (map (\<lambda>p. to_uint8 (p = c))) m) ?ids"
    by (simp add: built_target_def split_masks_def comp_def)
  have l: "length (masks ?t) = card (set (concat m)) - 1"
    by (simp add: built_target_def split_masks_def length_np_unique)
  have p: "0 < length (masks ?t)" unfolding l using c by simp
  have b: "length (boxes ?t) = length (masks ?t)"
    by (simp add: built_target_def)
  have o: "\<forall>g\<in>set (masks ?t). 1 \<in> set (concat g)"
  proof
    fix g assume "g \<in> set (masks ?t)"
    then obtain c where c: "c \<in> set ?ids" and g: "g = map (map (\<lambda>p. to_uint8 (p = c))) m"
      unfolding m by auto
    from c obj_ids_subset have "c \<in> set (concat m)" by blast
    then have "to_uint8 (c = c) \<in> (\<lambda>p. to_uint8 (p = c)) ` set (concat m)" by (rule imageI)
    also have "(\<lambda>p. to_uint8 (p = c)) ` set (concat m) = set (concat g)" unfolding g by auto
    finally show "1 \<in> set (concat g)" by (simp add: to_uint8_def)
  qed
  from s m l p b o show ?thesis by blast
qed

theorem getitem_keeps_every_instance_witness:
  "\<exists>x t. getitem fs_ped ds_ped 0 = Inr (x, t) \<and>
      masks t = [[[1, 1, 0], [0, 1, 0], [0, 0, 0]], [[0, 0, 0], [0, 0, 1], [0, 1, 1]]] \<and>
      length (masks t) = 2 \<and> length (boxes t) = length (masks t)"
proof -
  have g: "getitem fs_ped ds_ped 0 =
     Inr (Convert_RGB [[5, 5, 5], [5, 5, 5], [5, 5, 5]],
          \<lparr>boxes = [[Float 0, Float 0, Float 1, Float 1], [Float 1, Float 1, Float 2, Float 2]],
           labels = [1, 1],
           masks = [[[1, 1, 0], [0, 1, 0], [0, 0, 0]], [[0, 0, 0], [0, 0, 1], [0, 1, 1]]],
           image_id = [0], area = [Float 1, Float 1], iscrowd = [0, 0]\<rparr>)"
    by code_simp
  have n: "py_getitem (self_masks ds_ped) 0 = Inr ''a_mask.png''"
    by (simp add: ds_ped_def py_getitem_def)
  have f: "image_open fs_ped (os_path_join (self_root ds_ped) [''PedMasks'', ''a_mask.png'']) =
      Some [[1, 1, 0], [0, 1, 2], [0, 2, 2]]"
    by (simp add: ds_ped_def fs_ped_def os_path_join_def join_step_def)
  have h: "hook (self_transforms ds_ped) = (\<lambda>s. s)"
    by (simp add: ds_ped_def hook_def fun_eq_iff)
  have u: "drop 1 (np_unique [[1, 1, 0], [0, 1, 2], [0, 2, 2]]) = [1, 2]"
    by code_simp
  from getitem_keeps_every_instance [OF g n f, unfolded h u] obtain x t where
    "(Convert_RGB [[5, 5, 5], [5, 5, 5], [5, 5, 5]],
          \<lparr>boxes = [[Float 0, Float 0, Float 1, Float 1], [Float 1, Float 1, Float 2, Float 2]],
           labels = [1, 1],
           masks = [[[1, 1, 0], [0, 1, 0], [0, 0, 0]], [[0, 0, 0], [0, 0, 1], [0, 1, 1]]],
           image_id = [0], area = [Float 1, Float 1], iscrowd = [0, 0]\<rparr>) = (x, t)"
    "length (boxes t) = length (masks t)"
    by blast
  with g show ?thesis by auto
qed

text \<open>
  C10. The claim is about the target that \<^verbatim>\<open>__getitem__\<close> returns. With a transform
  configured the returned target is what the transform makes of the target built: on
  \<open>ds_ped_zero_labels\<close>, whose transform sets every label to 0, the returned labels
  are \<open>[0, 0]\<close>. And the area is a \<^verbatim>\<open>float32\<close> product: for the box
  \<open>[0, 0, 4999, 4999]\<close> it is 24990000, where \<open>(4999 - 0) * (4999 - 0) = 24990001\<close>.
\<close>

theorem relabelled_target_counterexample:
  "getitem fs_ped ds_ped_zero_labels 0 =
     Inr (Convert_RGB [[5, 5, 5], [5, 5, 5], [5, 5, 5]],
          \<lparr>boxes = [[Float 0, Float 0, Float 1, Float 1], [Float 1, Float 1, Float 2, Float 2]],
           labels = [0, 0],
           masks = [[[1, 1, 0], [0, 1, 0], [0, 0, 0]], [[0, 0, 0], [0, 0, 1], [0, 1, 1]]],
           image_id = [0], area = [Float 1, Float 1], iscrowd = [0, 0]\<rparr>) \<and>
   box_areas [[Float 0, Float 0, Float 4999, Float 4999]] = Inr [Float 24990000] \<and>
   (4999 - 0) * (4999 - 0) = (24990001::int)"
  by code_simp

text \<open>
  C10, as amended. When \<^verbatim>\<open>__getitem__\<close> returns and the mask image has at most 4096
  rows and columns, the target it has built, which is the target returned when no
  transform is configured and the one handed to the transform otherwise, is as follows,
  with \<open>num_objs\<close> the number of its masks, one for every distinct pixel value of the
  mask image but the smallest: there is at least one instance, every label is 1, every
  crowd flag is 0, \<^verbatim>\<open>labels\<close>, \<^verbatim>\<open>iscrowd\<close>, \<^verbatim>\<open>area\<close> and \<^verbatim>\<open>boxes\<close> have
  \<open>num_objs\<close> entries, and the area of instance \<open>k\<close> is exactly
  \<open>(ymax - ymin) * (xmax - xmin)\<close> of its box \<open>[xmin, ymin, xmax, ymax]\<close>.
\<close>

theorem target_labels_area:
  assumes "getitem fs ds i = Inr s"
      and "py_getitem (self_masks ds) i = Inr mask_name"
      and "image_open fs (os_path_join (self_root ds) [''PedMasks'', mask_name]) = Some m"
      and "image_within 4096 m"
  shows "\<exists>x t. s = hook (self_transforms ds) (x, t) \<and>
         length (masks t) = card (set (concat m)) - 1 \<and>
         0 < length (masks t) \<and>
         labels t = replicate (length (masks t)) 1 \<and>
         iscrowd t = replicate (length (masks t)) 0 \<and>
         length (area t) = length (masks t) \<and>
         length (boxes t) = length (masks t) \<and>
         (\<forall>k<length (masks t). \<exists>xmin ymin xmax ymax.
            boxes t ! k = [Float xmin, Float ymin, Float xmax, Float ymax] \<and>
            area t ! k = Float ((ymax - ymin) * (xmax - xmin)))"
proof -
  let ?ms = "split_masks m (drop 1 (np_unique m))"
  let ?t = "built_target i ?ms"
  from getitem_built [OF assms(1-3)] obtain img where
    c: "2 \<le> card (set (concat m))"
    and s: "s = hook (self_transforms ds) (Convert_RGB img, ?t)"
    by blast
  have l: "length (masks ?t) = card (set (concat m)) - 1"
    by (simp add: built_target_def split_masks_def length_np_unique)
  have p: "0 < length (masks ?t)" unfolding l using c by simp
  have lm: "length (masks ?t) = length ?ms" by (simp add: built_target_def)
  have q: "labels ?t = replicate (length (masks ?t)) 1"
      "iscrowd ?t = replicate (length (masks ?t)) 0"
      "length (area ?t) = length (masks ?t)" "length (boxes ?t) = length (masks ?t)"
    by (simp_all add: built_target_def)
  have k: "\<forall>k<length (masks ?t). \<exists>xmin ymin xmax ymax.
            boxes ?t ! k = [Float xmin, Float ymin, Float xmax, Float ymax] \<and>
            area ?t ! k = Float ((ymax - ymin) * (xmax - xmin))"
  proof (intro allI impI)
    fix k assume "k < length (masks ?t)"
    then have kl: "k < length ?ms" unfolding lm .
    then have g: "?ms ! k \<in> set ?ms" by simp
    have t: "true_cells (?ms ! k) \<noteq> []"
      by (rule split_masks_cells [OF obj_ids_subset g])
    have w: "image_within 4096 (?ms ! k)"
      by (rule image_within_split [OF assms(4) g])
    have "boxes ?t ! k = float32_box (?ms ! k)" "area ?t ! k = float32_area (?ms ! k)"
      using kl by (simp_all add: built_target_def)
    with float32_area_exact [OF t w]
    show "\<exists>xmin ymin xmax ymax.
            boxes ?t ! k = [Float xmin, Float ymin, Float xmax, Float ymax] \<and>
            area ?t ! k = Float ((ymax - ymin) * (xmax - xmin))"
      by auto
  qed
  from s l p q k show ?thesis by blast
qed

theorem target_labels_area_witness:
  "getitem fs_ped ds_ped 0 =
     Inr (Convert_RGB [[5, 5, 5], [5, 5, 5], [5, 5, 5]],
          \<lparr>boxes = [[Float 0, Float 0, Float 1, Float 1], [Float 1, Float 1, Float 2, Float 2]],
           labels = [1, 1],
           masks = [[[1, 1, 0], [0, 1, 0], [0, 0, 0]], [[0, 0, 0], [0, 0, 1], [0, 1, 1]]],
           image_id = [0], area = [Float 1, Float 1], iscrowd = [0, 0]\<rparr>) \<and>
   (\<exists>x t. getitem fs_ped ds_ped 0 = Inr (x, t) \<and>
      length (masks t) = 2 \<and>
      labels t = replicate (length (masks t)) 1 \<and>
      iscrowd t = replicate (length (masks t)) 0 \<and>
      length (area t) = length (masks t) \<and>
      (\<exists>xmin ymin xmax ymax.
         boxes t ! 1 = [Float xmin, Float ymin, Float xmax, Float ymax] \<and>
         area t ! 1 = Float ((ymax - ymin) * (xmax - xmin))))"
proof -
  have g: "getitem fs_ped ds_ped 0 =
     Inr (Convert_RGB [[5, 5, 5], [5, 5, 5], [5, 5, 5]],
          \<lparr>boxes = [[Float 0, Float 0, Float 1, Float 1], [Float 1, Float 1, Float 2, Float 2]],
           labels = [1, 1],
           masks = [[[1, 1, 0], [0, 1, 0], [0, 0, 0]], [[0, 0, 0], [0, 0, 1], [0, 1, 1]]],
           image_id = [0], area = [Float 1, Float 1], iscrowd = [0, 0]\<rparr>)"
    by code_simp
  have n: "py_getitem (self_masks ds_ped) 0 = Inr ''a_mask.png''"
    by (simp add: ds_ped_def py_getitem_def)
  have f: "image_open fs_ped (os_path_join (self_root ds_ped) [''PedMasks'', ''a_mask.png'']) =
      Some [[1, 1, 0], [0, 1, 2], [0, 2, 2]]"
    by (simp add: ds_ped_def fs_ped_def os_path_join_def join_step_def)
  have w: "image_within 4096 [[1, 1, 0], [0, 1, 2], [0, 2, 2::nat]]"
    by (simp add: image_within_def)
  have h: "hook (self_transforms ds_ped) = (\<lambda>s. s)"
    by (simp add: ds_ped_def hook_def fun_eq_iff)
  have c: "card (set (concat [[1, 1, 0], [0, 1, 2], [0, 2, 2::nat]])) - 1 = 2"
    by code_simp
  from target_labels_area [OF g n f w, unfolded h c] obtain x t where
    xt: "(Convert_RGB [[5, 5, 5], [5, 5, 5], [5, 5, 5]],
          \<lparr>boxes = [[Float 0, Float 0, Float 1, Float 1], [Float 1, Float 1, Float 2, Float 2]],
           labels = [1, 1],
           masks = [[[1, 1, 0], [0, 1, 0], [0, 0, 0]], [[0, 0, 0], [0, 0, 1], [0, 1, 1]]],
           image_id = [0], area = [Float 1, Float 1], iscrowd = [0, 0]\<rparr>) = (x, t)"
    and l: "length (masks t) = 2"
    and p: "labels t = replicate (length (masks t)) 1"
      "iscrowd t = replicate (length (masks t)) 0"
      "length (area t) = length (masks t)"
    and q: "\<forall>k<length (masks t). \<exists>xmin ymin xmax ymax.
            boxes t ! k = [Float xmin, Float ymin, Float xmax, Float ymax] \<and>
            area t ! k = Float ((ymax - ymin) * (xmax - xmin))"
    by blast
  from l have "1 < length (masks t)" by simp
  with q have "\<exists>xmin ymin xmax ymax.
         boxes t ! 1 = [Float xmin, Float ymin, Float xmax, Float ymax] \<and>
         area t ! 1 = Float ((ymax - ymin) * (xmax - xmin))"
    by blast
  with g xt l p show ?thesis by auto
qed

section \<open>The evaluation loop\<close>

lemma argmax_Inr: "row \<noteq> [] \<Longrightarrow> \<exists>c. argmax row = Inr c"
  by (simp add: argmax_def)

lemma n_correct_batch:
  "n_correct (map (f \<circ> fst) b) (map snd b) =
     (if \<exists>s\<in>set b. f (fst s) = [] then Inl IndexError else Inr (hits f b))"
proof (induction b)
  case Nil
  then show ?case by (simp add: hits_def)
next
  case (Cons s b)
  show ?case
  proof (cases "f (fst s) = []")
    case True
    then show ?thesis by (simp add: argmax_def)
  next
    case False
    then obtain c where c: "argmax (f (fst s)) = Inr c" using argmax_Inr by blast
    with False Cons show ?thesis
      by (cases s) (auto simp: hits_def)
  qed
qed

lemma test_loop_eq:
  "test_loop T loss_fn p bs a c =
     (if \<exists>b\<in>set bs. \<exists>s\<in>set b. forward T p False (fst s) = [] then Inl IndexError
      else Inr (foldl (+) a (map (\<lambda>b. loss_fn (map (forward T p False) (map fst b)) (map snd b)) bs),
                foldl (+) c (map (\<lambda>b. float_of T (hits (forward T p False) b)) bs)))"
proof (induction bs arbitrary: a c)
  case Nil
  then show ?case by simp
next
  case (Cons b bs)
  show ?case
    by (simp add: Let_def n_correct_batch Cons)
qed

lemma test_model: "fst (fst (test T dl model loss_fn rng)) = model\<lparr>training := False\<rparr>"
  by (simp add: test_def Let_def split_beta)

lemma test_rng: "snd (fst (test T dl model loss_fn rng)) = snd (iterate dl rng)"
  by (simp add: test_def Let_def split_beta)

lemma test_result:
  "snd (test T dl model loss_fn rng) =
     (case test_loop T loss_fn (params model) (fst (iterate dl rng)) 0 0 of
        Inl e \<Rightarrow> Inl e
      | Inr (test_loss, correct) \<Rightarrow>
          if num_batches dl = 0 \<or> dataset_len dl = 0 then Inl ZeroDivisionError
          else Inr (test_loss / float_of T (num_batches dl), correct / float_of T (dataset_len dl)))"
  by (simp add: test_def Let_def split_beta split: sum.splits)

text \<open>
  C1. The claim has two consecutive runs give the same pair for every loader. A loader
  that shuffles gives the second run other batches than the first: on \<open>loader_shuffled\<close>
  the first run prints the average loss 6 and the second, on the model and the generator
  state the first one left, prints 4.
\<close>

theorem test_shuffled_counterexample:
  "snd (test torch_ex loader_shuffled model_ex loss_ex 0) = Inr (6, 1 / 3) \<and>
   fst (test torch_ex loader_shuffled model_ex loss_ex 0) =
     (\<lparr>params = 2, grads = 7, training = False\<rparr>, 1) \<and>
   snd (test torch_ex loader_shuffled \<lparr>params = 2, grads = 7, training = False\<rparr> loss_ex 1) =
     Inr (4, 1 / 3) \<and>
   snd (test torch_ex loader_shuffled \<lparr>params = 2, grads = 7, training = False\<rparr> loss_ex 1) \<noteq>
     snd (test torch_ex loader_shuffled model_ex loss_ex 0)"
  by (simp add: test_def torch_ex_def loader_shuffled_def model_ex_def loss_ex_def argmax_def Let_def)

text \<open>
  C1, as amended. \<^verbatim>\<open>test\<close> changes neither the parameters nor the gradient slots of
  the model (it only sets the mode flag, whatever the loader does); and when the loader
  yields in the second run the batches it yielded in the first, as every loader that
  does not shuffle does, the second run, on the model and the generator state the first
  one left, gives the same result: the same printed pair or the same exception. Nothing
  is assumed about the float arithmetic.
\<close>

theorem test_is_read_only:
  fixes T :: "('x, 's::linorder, 'p, 'g, 'o, 'f::{zero,plus,inverse}) torch"
  assumes "test T dl model loss_fn rng = ((model1, rng1), result1)"
      and "test T dl model1 loss_fn rng1 = ((model2, rng2), result2)"
  shows "params model1 = params model \<and> grads model1 = grads model \<and>
         params model2 = params model \<and> grads model2 = grads model \<and>
         (fst (iterate dl rng1) = fst (iterate dl rng) \<longrightarrow> result2 = result1)"
proof -
  have m1: "model1 = model\<lparr>training := False\<rparr>" and r1: "rng1 = snd (iterate dl rng)"
    using assms(1) test_model [of T dl model loss_fn rng] test_rng [of T dl model loss_fn rng]
    by simp_all
  have m2: "model2 = model1\<lparr>training := False\<rparr>"
    using assms(2) test_model [of T dl model1 loss_fn rng1] by simp
  have "result1 = snd (test T dl model loss_fn rng)" "result2 = snd (test T dl model1 loss_fn rng1)"
    using assms by simp_all
  then have "result2 = result1" if "fst (iterate dl rng1) = fst (iterate dl rng)"
    unfolding test_result using that m1 by simp
  with m1 m2 show ?thesis by simp
qed

theorem test_is_read_only_witness:
  "test torch_ex loader_ex model_ex loss_ex 0 =
     ((\<lparr>params = 2, grads = 7, training = False\<rparr>, 0), Inr (6, 1 / 3)) \<and>
   test torch_ex loader_ex \<lparr>params = 2, grads = 7, training = False\<rparr> loss_ex 0 =
     ((\<lparr>params = 2, grads = 7, training = False\<rparr>, 0), Inr (6, 1 / 3)) \<and>
   fst (iterate loader_ex 0) = fst (iterate loader_ex 0) \<and>
   params \<lparr>params = 2, grads = 7, training = False\<rparr> = params model_ex"
proof -
  have a: "test torch_ex loader_ex model_ex loss_ex 0 =
     ((\<lparr>params = 2, grads = 7, training = False\<rparr>, 0), Inr (6, 1 / 3))"
    by (simp add: test_def torch_ex_def loader_ex_def model_ex_def loss_ex_def argmax_def Let_def)
  have b: "test torch_ex loader_ex \<lparr>params = 2, grads = 7, training = False\<rparr> loss_ex 0 =
     ((\<lparr>params = 2, grads = 7, training = False\<rparr>, 0), Inr (6, 1 / 3))"
    by (simp add: test_def torch_ex_def loader_ex_def loss_ex_def argmax_def Let_def)
  from test_is_read_only [OF a b] a b show ?thesis by simp
qed

text \<open>
  C5. The claim has \<^verbatim>\<open>test\<close> give the pair for every loader. On a loader without
  batches, \<^verbatim>\<open>test_loss /= num_batches\<close> divides by zero and the call raises.
\<close>

theorem test_empty_loader_counterexample:
  "snd (test torch_ex loader_empty model_ex loss_ex 0) = Inl ZeroDivisionError"
  by (simp add: test_def torch_ex_def loader_empty_def model_ex_def Let_def)

text \<open>
  C5, as amended. For a loader with at least one batch and a dataset with at least one
  sample, and a model that gives every sample at least one class score, the two values
  \<^verbatim>\<open>test\<close> prints are: the batch losses, added up in the order of the batches from
  0, divided by \<^verbatim>\<open>num_batches\<close>; and the per-batch counts of samples whose \<open>argmax\<close>
  is the target, added up the same way, divided by the size of the dataset.
\<close>

theorem test_reports_averages:
  fixes T :: "('x, 's::linorder, 'p, 'g, 'o, 'f::{zero,plus,inverse}) torch"
  assumes "0 < num_batches dl" and "0 < dataset_len dl"
      and "\<forall>b\<in>set (fst (iterate dl rng)). \<forall>(x, t)\<in>set b. forward T (params model) False x \<noteq> []"
  shows "snd (test T dl model loss_fn rng) =
           Inr (foldl (+) 0 (map (\<lambda>b. loss_fn (map (forward T (params model) False) (map fst b))
                                              (map snd b)) (fst (iterate dl rng)))
                  / float_of T (num_batches dl),
                foldl (+) 0 (map (\<lambda>b. float_of T (hits (forward T (params model) False) b))
                                 (fst (iterate dl rng)))
                  / float_of T (dataset_len dl))"
proof -
  have "\<not> (\<exists>b\<in>set (fst (iterate dl rng)). \<exists>s\<in>set b. forward T (params model) False (fst s) = [])"
    using assms(3) by fastforce
  then show ?thesis
    using assms(1,2) by (simp add: test_result test_loop_eq)
qed

theorem test_reports_averages_witness:
  "snd (test torch_ex loader_ex model_ex loss_ex 0) = Inr ((0 + 2 + 10) / 2, (0 + 1 + 0) / 3)"
proof -
  have h: "\<forall>b\<in>set (fst (iterate loader_ex 0)). \<forall>(x, t)\<in>set b.
             forward torch_ex (params model_ex) False x \<noteq> []"
    by (simp add: torch_ex_def loader_ex_def)
  have n: "0 < num_batches loader_ex" "0 < dataset_len loader_ex"
    by (simp_all add: loader_ex_def)
  show ?thesis
    unfolding test_reports_averages [OF n h]
    by (simp add: hits_def argmax_def torch_ex_def loader_ex_def model_ex_def loss_ex_def)
qed

section \<open>The training loop\<close>

lemma train_loop_shape:
  "map shape (snd (train_loop K T loss_fn dsize bs k st)) =
     concat (map (batch_events K dsize) (enumerate k bs))"
proof (induction bs arbitrary: k st)
  case Nil
  then show ?case by simp
next
  case (Cons b bs)
  obtain model opt where st: "st = (model, opt)" by (cases st)
  show ?case
    unfolding st
    by (simp add: Let_def split_beta Cons batch_events_def)
qed

text \<open>
  The order of the calls, for every loader and both notebooks: each batch contributes
  predict, loss, zero-grad, backward, step, in this order, and after the step of every
  batch whose index is a multiple of \<open>K\<close> (500 for CIFAR-10, 100 for Fashion-MNIST) a line
  is printed that shows \<open>batch * len(X)\<close> and the size of the dataset.
\<close>

theorem train_steps_in_order:
  "map shape (snd (train_cifar10 T dl model loss_fn opt rng)) =
     concat (map (batch_events 500 (dataset_len dl)) (enumerate 0 (fst (iterate dl rng)))) \<and>
   map shape (snd (train_fashion_mnist T dl model loss_fn opt rng)) =
     concat (map (batch_events 100 (dataset_len dl)) (enumerate 0 (fst (iterate dl rng))))"
  by (simp add: train_cifar10_def train_fashion_mnist_def train_def Let_def split_beta
      train_loop_shape)

text \<open>
  C6. The number in the printed line is \<open>batch * len(X)\<close>, the batch index times the
  length of the current batch, not the number of samples processed. On \<open>loader_201\<close>
  the Fashion-MNIST loop prints 0 after its first batch of two samples, and 100 after
  batch 100, the last one, which holds a single sample: by then 200 samples were
  processed before that batch and 201 with it.
\<close>

theorem train_progress_count_201:
  "filter is_progress
     (map shape (snd (train_fashion_mnist torch_ex loader_201 model_ex loss_ex () 0))) =
     [Progress () 0 201, Progress () 100 201] \<and>
   sum_list (map length (take 100 (fst (iterate loader_201 0)))) = 200 \<and>
   sum_list (map length (fst (iterate loader_201 0))) = 201"
proof -
  have "map shape (snd (train_fashion_mnist torch_ex loader_201 model_ex loss_ex () 0)) =
     concat (map (batch_events 100 (dataset_len loader_201))
                 (enumerate 0 (fst (iterate loader_201 0))))"
    by (simp add: train_fashion_mnist_def train_def Let_def split_beta train_loop_shape)
  then show ?thesis by (simp only:) code_simp
qed

end
